theory Spec2Isabelle
  imports Main "HOL-Library.Sublist"
begin

section \<open>Text\<close>

text \<open>
  A JavaScript string is modelled as a \<open>string\<close>: one \<open>char\<close> is one unit of text, so
  \<open>length\<close> is the source's \<open>.length\<close>. The type holds the units 0..255; the built-ins
  below are the ECMAScript ones restricted to that range.
\<close>

definition upper_units :: "string" where
  "upper_units = ''ABCDEFGHIJKLMNOPQRSTUVWXYZ'' @
     [CHR 0xC0, CHR 0xC1, CHR 0xC2, CHR 0xC3, CHR 0xC4, CHR 0xC5, CHR 0xC6, CHR 0xC7,
      CHR 0xC8, CHR 0xC9, CHR 0xCA, CHR 0xCB, CHR 0xCC, CHR 0xCD, CHR 0xCE, CHR 0xCF,
      CHR 0xD0, CHR 0xD1, CHR 0xD2, CHR 0xD3, CHR 0xD4, CHR 0xD5, CHR 0xD6,
      CHR 0xD8, CHR 0xD9, CHR 0xDA, CHR 0xDB, CHR 0xDC, CHR 0xDD, CHR 0xDE]"

definition lower_units :: "string" where
  "lower_units = ''abcdefghijklmnopqrstuvwxyz'' @
     [CHR 0xE0, CHR 0xE1, CHR 0xE2, CHR 0xE3, CHR 0xE4, CHR 0xE5, CHR 0xE6, CHR 0xE7,
      CHR 0xE8, CHR 0xE9, CHR 0xEA, CHR 0xEB, CHR 0xEC, CHR 0xED, CHR 0xEE, CHR 0xEF,
      CHR 0xF0, CHR 0xF1, CHR 0xF2, CHR 0xF3, CHR 0xF4, CHR 0xF5, CHR 0xF6,
      CHR 0xF8, CHR 0xF9, CHR 0xFA, CHR 0xFB, CHR 0xFC, CHR 0xFD, CHR 0xFE]"

definition toLowerCase_unit :: "char \<Rightarrow> char" where
  "toLowerCase_unit c = (case map_of (zip upper_units lower_units) c of Some l \<Rightarrow> l | None \<Rightarrow> c)"

definition toLowerCase :: "string \<Rightarrow> string" where
  "toLowerCase s = map toLowerCase_unit s"

text \<open>White space as \<open>String.prototype.trim\<close> sees it: TAB, LF, VT, FF, CR, SP, NBSP.\<close>

definition is_white_space :: "char \<Rightarrow> bool" where
  "is_white_space c =
     (c \<in> set [CHR 0x09, CHR 0x0A, CHR 0x0B, CHR 0x0C, CHR 0x0D, CHR 0x20, CHR 0xA0])"

definition trim :: "string \<Rightarrow> string" where
  "trim s = rev (dropWhile is_white_space (rev (dropWhile is_white_space s)))"


text \<open>
  \<open>s.split(sep)\<close> for a non-empty separator: the pieces between the occurrences of
  \<open>sep\<close>, found left to right without overlap. \<open>cur\<close> is the piece being read, reversed.
\<close>

function split_from :: "string \<Rightarrow> string \<Rightarrow> string \<Rightarrow> string list" where
  "split_from sep cur [] = [rev cur]"
| "split_from sep cur (c # cs) =
     (if sep \<noteq> [] \<and> prefix sep (c # cs)
      then rev cur # split_from sep [] (drop (length sep) (c # cs))
      else split_from sep (c # cur) cs)"
  by pat_completeness auto
termination
  by (relation "measure (\<lambda>(sep, cur, s). length s)") (auto simp: neq_Nil_conv)

definition split :: "string \<Rightarrow> string \<Rightarrow> string list" where
  "split s sep = split_from sep [] s"

text \<open>\<open>q.replace(/^"|"$/g, '')\<close>: one leading and one trailing double quote go.\<close>

definition strip_quotes :: "string \<Rightarrow> string" where
  "strip_quotes q =
     (let q1 = (if prefix [CHR 0x22] q then drop 1 q else q)
      in if suffix [CHR 0x22] q1 then butlast q1 else q1)"

text \<open>\<open>q.replace(/^\["|"\]$/g, '')\<close>: a leading \<open>["\<close> and a trailing \<open>"]\<close> go.\<close>

definition strip_bracket_quotes :: "string \<Rightarrow> string" where
  "strip_bracket_quotes q =
     (let q1 = (if prefix [CHR ''['', CHR 0x22] q then drop 2 q else q)
      in if suffix [CHR 0x22, CHR '']''] q1 then take (length q1 - 2) q1 else q1)"

text \<open>
  \<open>s.match(/\[(.*)\]/s)\<close>, reduced to its capture group: with the \<open>s\<close> flag the dot
  matches every unit, and the star is greedy, so the group runs from the first \<open>[\<close> to
  the last \<open>]\<close> after it. \<open>None\<close> is the source's \<open>null\<close> (no match).
\<close>

definition match_bracketed :: "string \<Rightarrow> string option" where
  "match_bracketed s =
     (case dropWhile (\<lambda>c. c \<noteq> CHR ''['') s of
        [] \<Rightarrow> None
      | _ # rest \<Rightarrow>
          if CHR '']'' \<in> set rest
          then Some (rev (drop 1 (dropWhile (\<lambda>c. c \<noteq> CHR '']'') (rev rest))))
          else None)"

section \<open>Values and JSON.parse\<close>

text \<open>
  The values the program handles: \<open>undefined\<close> and what \<open>JSON.parse\<close> can return. A
  number keeps the numeral it was read from.
\<close>

datatype jsval =
    Undefined
  | JNull
  | JBool bool
  | JNumber string
  | JString string
  | JArray "jsval list"
  | JObject "(string \<times> jsval) list"

datatype token =
    TLBracket | TRBracket | TLBrace | TRBrace | TComma | TColon
  | TString string | TNumber string | TTrue | TFalse | TNull

definition is_json_ws :: "char \<Rightarrow> bool" where
  "is_json_ws c = (c \<in> set [CHR 0x20, CHR 0x09, CHR 0x0A, CHR 0x0D])"

definition is_control :: "char \<Rightarrow> bool" where
  "is_control c = ((of_char c :: nat) < 32)"

definition is_digit :: "char \<Rightarrow> bool" where
  "is_digit c = (c \<in> set ''0123456789'')"

definition simple_escapes :: "(char \<times> char) list" where
  "simple_escapes =
     [(CHR 0x22, CHR 0x22), (CHR 0x5C, CHR 0x5C), (CHR ''/'', CHR ''/''),
      (CHR ''b'', CHR 0x08), (CHR ''f'', CHR 0x0C), (CHR ''n'', CHR 0x0A),
      (CHR ''r'', CHR 0x0D), (CHR ''t'', CHR 0x09)]"

definition hex_digits :: "(char \<times> bool \<times> bool \<times> bool \<times> bool) list" where
  "hex_digits =
     [(CHR ''0'', False, False, False, False), (CHR ''1'', True, False, False, False),
      (CHR ''2'', False, True, False, False), (CHR ''3'', True, True, False, False),
      (CHR ''4'', False, False, True, False), (CHR ''5'', True, False, True, False),
      (CHR ''6'', False, True, True, False), (CHR ''7'', True, True, True, False),
      (CHR ''8'', False, False, False, True), (CHR ''9'', True, False, False, True),
      (CHR ''a'', False, True, False, True), (CHR ''b'', True, True, False, True),
      (CHR ''c'', False, False, True, True), (CHR ''d'', True, False, True, True),
      (CHR ''e'', False, True, True, True), (CHR ''f'', True, True, True, True),
      (CHR ''A'', False, True, False, True), (CHR ''B'', True, True, False, True),
      (CHR ''C'', False, False, True, True), (CHR ''D'', True, False, True, True),
      (CHR ''E'', False, True, True, True), (CHR ''F'', True, True, True, True)]"

text \<open>
  The unit a \<open>\uXXXX\<close> escape denotes. Whether the escape is well formed is decided as
  in the grammar; of the unit, the low eight bits are kept (the two last digits), the
  range this text type holds.
\<close>

definition hex4 :: "string \<Rightarrow> char option" where
  "hex4 ds =
     (case map (map_of hex_digits) ds of
        [Some _, Some _, Some (h0, h1, h2, h3), Some (l0, l1, l2, l3)] \<Rightarrow>
          Some (Char l0 l1 l2 l3 h0 h1 h2 h3)
      | _ \<Rightarrow> None)"

text \<open>The body of a string literal, after its opening quote: the text and what follows.\<close>

fun lex_string :: "string \<Rightarrow> string \<Rightarrow> (string \<times> string) option" where
  "lex_string acc [] = None"
| "lex_string acc (c # cs) =
     (if c = CHR 0x22 then Some (rev acc, cs)
      else if c = CHR 0x5C then
        (case cs of
           [] \<Rightarrow> None
         | e # es \<Rightarrow>
             if e = CHR ''u'' then
               (case hex4 (take 4 es) of
                  None \<Rightarrow> None
                | Some u \<Rightarrow> lex_string (u # acc) (drop 4 es))
             else
               (case map_of simple_escapes e of
                  None \<Rightarrow> None
                | Some u \<Rightarrow> lex_string (u # acc) es))
      else if is_control c then None
      else lex_string (c # acc) cs)"

text \<open>
  A number: \<open>-? (0 | [1-9][0-9]*) (. [0-9]+)? ([eE] [+-]? [0-9]+)?\<close>; the numeral
  and what follows it.
\<close>

definition lex_int :: "string \<Rightarrow> (string \<times> string) option" where
  "lex_int s =
     (case s of
        [] \<Rightarrow> None
      | c # cs \<Rightarrow>
          if c = CHR ''0'' then Some ([c], cs)
          else if is_digit c then Some (takeWhile is_digit s, dropWhile is_digit s)
          else None)"

definition lex_frac :: "string \<Rightarrow> (string \<times> string) option" where
  "lex_frac s =
     (case s of
        c # cs \<Rightarrow>
          if c = CHR ''.'' then
            (if takeWhile is_digit cs = [] then None
             else Some (c # takeWhile is_digit cs, dropWhile is_digit cs))
          else Some ([], s)
      | [] \<Rightarrow> Some ([], s))"

definition lex_exp :: "string \<Rightarrow> (string \<times> string) option" where
  "lex_exp s =
     (case s of
        c # cs \<Rightarrow>
          if c = CHR ''e'' \<or> c = CHR ''E'' then
            (let (sign, ds) =
               (case cs of
                  d # ds' \<Rightarrow> if d = CHR ''+'' \<or> d = CHR ''-'' then ([d], ds') else ([], cs)
                | [] \<Rightarrow> ([], cs))
             in if takeWhile is_digit ds = [] then None
                else Some (c # sign @ takeWhile is_digit ds, dropWhile is_digit ds))
          else Some ([], s)
      | [] \<Rightarrow> Some ([], s))"

definition lex_number :: "string \<Rightarrow> (string \<times> string) option" where
  "lex_number s =
     (let (sign, s1) = (if prefix ''-'' s then (''-'', drop 1 s) else ([], s))
      in case lex_int s1 of
           None \<Rightarrow> None
         | Some (i, s2) \<Rightarrow>
             (case lex_frac s2 of
                None \<Rightarrow> None
              | Some (f, s3) \<Rightarrow>
                  (case lex_exp s3 of
                     None \<Rightarrow> None
                   | Some (e, s4) \<Rightarrow> Some (sign @ i @ f @ e, s4))))"

lemma lex_string_shorter:
  "lex_string acc s = Some (t, rest) \<Longrightarrow> length rest < length s"
proof (induction acc s rule: lex_string.induct)
  case (1 acc)
  then show ?case by simp
next
  case (2 acc c cs)
  show ?case
  proof (cases "c = CHR 0x22")
    case True
    with "2.prems" show ?thesis by simp
  next
    case nq: False
    show ?thesis
    proof (cases "c = CHR 0x5C")
      case bs: True
      with "2.prems" nq obtain e es where cs: "cs = e # es"
        by (cases cs) auto
      show ?thesis
      proof (cases "e = CHR ''u''")
        case u: True
        with "2.prems" nq bs cs obtain x where
          x: "hex4 (take 4 es) = Some x" and r: "lex_string (x # acc) (drop 4 es) = Some (t, rest)"
          by (auto split: option.splits)
        have "length rest < length (drop 4 es)"
          using "2.IH"(1) [OF nq bs cs u x r] .
        with cs show ?thesis by simp
      next
        case nu: False
        with "2.prems" nq bs cs obtain x where
          x: "map_of simple_escapes e = Some x" and r: "lex_string (x # acc) es = Some (t, rest)"
          by (auto split: option.splits)
        have "length rest < length es"
          using "2.IH"(2) [OF nq bs cs nu x r] .
        with cs show ?thesis by simp
      qed
    next
      case nb: False
      with "2.prems" nq have nc: "\<not> is_control c" and r: "lex_string (c # acc) cs = Some (t, rest)"
        by (auto split: if_splits)
      have "length rest < length cs"
        using "2.IH"(3) [OF nq nb nc r] .
      then show ?thesis by simp
    qed
  qed
qed

lemma lex_int_shorter: "lex_int s = Some (t, rest) \<Longrightarrow> length rest < length s"
  by (auto simp: lex_int_def split: list.splits if_splits
      intro: le_imp_less_Suc length_dropWhile_le)

lemma lex_frac_shorter: "lex_frac s = Some (t, rest) \<Longrightarrow> length rest \<le> length s"
  by (auto simp: lex_frac_def split: list.splits if_splits
      intro: le_SucI length_dropWhile_le)

lemma lex_exp_shorter: "lex_exp s = Some (t, rest) \<Longrightarrow> length rest \<le> length s"
proof -
  have d: "length (dropWhile is_digit xs) \<le> length xs" for xs
    by (rule length_dropWhile_le)
  assume "lex_exp s = Some (t, rest)"
  then show ?thesis
    using d
    by (auto simp: lex_exp_def Let_def split: list.splits if_splits prod.splits
        intro: le_SucI order_trans [OF length_dropWhile_le])
qed

lemma lex_number_shorter: "lex_number s = Some (t, rest) \<Longrightarrow> length rest < length s"
proof -
  assume a: "lex_number s = Some (t, rest)"
  obtain sign s1 where s1: "(if prefix ''-'' s then (''-'', drop 1 s) else ([], s)) = (sign, s1)"
    by (cases "(if prefix ''-'' s then (''-'', drop 1 s) else ([], s))") auto
  then have l1: "length s1 \<le> length s" by (auto split: if_splits)
  from a s1 obtain i s2 f s3 e where
    i: "lex_int s1 = Some (i, s2)" and f: "lex_frac s2 = Some (f, s3)"
    and e: "lex_exp s3 = Some (e, rest)"
    by (auto simp: lex_number_def Let_def split: option.splits prod.splits if_splits)
  from lex_int_shorter [OF i] lex_frac_shorter [OF f] lex_exp_shorter [OF e] l1
  show ?thesis by linarith
qed

text \<open>The token a text starts with, and what follows it; \<open>None\<close> where no token starts.\<close>

definition punctuation :: "(char \<times> token) list" where
  "punctuation =
     [(CHR ''['', TLBracket), (CHR '']'', TRBracket), (CHR ''{'', TLBrace),
      (CHR ''}'', TRBrace), (CHR '','', TComma), (CHR '':'', TColon)]"

definition literal_names :: "(string \<times> token) list" where
  "literal_names = [(''true'', TTrue), (''false'', TFalse), (''null'', TNull)]"

definition next_token :: "string \<Rightarrow> (token \<times> string) option" where
  "next_token s =
     (case s of
        [] \<Rightarrow> None
      | c # cs \<Rightarrow>
          (case map_of punctuation c of
             Some t \<Rightarrow> Some (t, cs)
           | None \<Rightarrow>
               if c = CHR 0x22 then map_option (map_prod TString id) (lex_string [] cs)
               else if c = CHR ''-'' \<or> is_digit c then
                 map_option (map_prod TNumber id) (lex_number s)
               else
                 (case filter (\<lambda>(name, t). prefix name s) literal_names of
                    [] \<Rightarrow> None
                  | (name, t) # _ \<Rightarrow> Some (t, drop (length name) s))))"

lemma literal_names_nonempty:
  "filter (\<lambda>(name, t). prefix name s) literal_names = (name, t) # more \<Longrightarrow> name \<noteq> []"
proof -
  assume a: "filter (\<lambda>(name, t). prefix name s) literal_names = (name, t) # more"
  have "(name, t) \<in> set (filter (\<lambda>(name, t). prefix name s) literal_names)"
    unfolding a by simp
  then have "(name, t) \<in> set literal_names" by simp
  then show ?thesis by (auto simp: literal_names_def)
qed

lemma next_token_shorter: "next_token s = Some (t, rest) \<Longrightarrow> length rest < length s"
proof (cases s)
  case Nil
  assume "next_token s = Some (t, rest)"
  with Nil show ?thesis by (simp add: next_token_def)
next
  case (Cons c cs)
  assume a: "next_token s = Some (t, rest)"
  show ?thesis
  proof (cases "map_of punctuation c")
    case (Some p)
    with a Cons show ?thesis by (simp add: next_token_def)
  next
    case None
    show ?thesis
    proof (cases "c = CHR 0x22")
      case True
      with a Cons None obtain x where "lex_string [] cs = Some (x, rest)"
        by (auto simp: next_token_def)
      from lex_string_shorter [OF this] Cons show ?thesis by simp
    next
      case nq: False
      show ?thesis
      proof (cases "c = CHR ''-'' \<or> is_digit c")
        case True
        with a Cons None nq obtain x where "lex_number s = Some (x, rest)"
          by (auto simp: next_token_def)
        from lex_number_shorter [OF this] show ?thesis .
      next
        case False
        with a Cons None nq obtain name more where
          f: "filter (\<lambda>(name, t). prefix name s) literal_names = (name, t) # more"
          and r: "rest = drop (length name) s"
          by (auto simp: next_token_def split: list.splits)
        from literal_names_nonempty [OF f] have "0 < length name" by simp
        with r Cons show ?thesis by simp
      qed
    qed
  qed
qed

text \<open>The token list of a text: white space separates tokens and is dropped.\<close>

function lex :: "string \<Rightarrow> token list option" where
  "lex s =
     (case dropWhile is_json_ws s of
        [] \<Rightarrow> Some []
      | c # cs \<Rightarrow>
          (case next_token (c # cs) of
             None \<Rightarrow> None
           | Some (t, rest) \<Rightarrow> map_option (Cons t) (lex rest)))"
  by pat_completeness auto
termination
proof (relation "measure length")
  show "wf (measure length)" by simp
next
  fix s :: string and c cs x t rest
  assume d: "dropWhile is_json_ws s = c # cs"
    and n: "next_token (c # cs) = Some x" and x: "(t, rest) = x"
  have "length rest < length (c # cs)"
    using n x next_token_shorter [of "c # cs" t rest] by simp
  moreover have "length (c # cs) \<le> length s"
    using length_dropWhile_le [of is_json_ws s] d by simp
  ultimately show "(rest, s) \<in> measure length" by simp
qed

declare lex.simps [simp del]

text \<open>
  The parser reads the tokens with a stack of the containers that are open; it has no
  recursion of its own, so it is total on every token list.
\<close>

datatype frame =
    InArray "jsval list"
  | InObject "(string \<times> jsval) list" string

datatype pstate =
    WantValue "frame list"
  | WantFirstElement "frame list"
  | WantFirstKey "frame list"
  | WantKey "(string \<times> jsval) list" "frame list"
  | WantColon "(string \<times> jsval) list" string "frame list"
  | After jsval "frame list"

definition value_step :: "frame list \<Rightarrow> token \<Rightarrow> pstate option" where
  "value_step fs t =
     (case t of
        TLBracket \<Rightarrow> Some (WantFirstElement fs)
      | TLBrace \<Rightarrow> Some (WantFirstKey fs)
      | TString x \<Rightarrow> Some (After (JString x) fs)
      | TNumber x \<Rightarrow> Some (After (JNumber x) fs)
      | TTrue \<Rightarrow> Some (After (JBool True) fs)
      | TFalse \<Rightarrow> Some (After (JBool False) fs)
      | TNull \<Rightarrow> Some (After JNull fs)
      | _ \<Rightarrow> None)"

definition close_step :: "jsval \<Rightarrow> frame list \<Rightarrow> token \<Rightarrow> pstate option" where
  "close_step v fs t =
     (case fs of
        [] \<Rightarrow> None
      | InArray acc # fs' \<Rightarrow>
          (case t of
             TComma \<Rightarrow> Some (WantValue (InArray (v # acc) # fs'))
           | TRBracket \<Rightarrow> Some (After (JArray (rev (v # acc))) fs')
           | _ \<Rightarrow> None)
      | InObject ms k # fs' \<Rightarrow>
          (case t of
             TComma \<Rightarrow> Some (WantKey ((k, v) # ms) fs')
           | TRBrace \<Rightarrow> Some (After (JObject (rev ((k, v) # ms))) fs')
           | _ \<Rightarrow> None))"

definition parse_step :: "pstate \<Rightarrow> token \<Rightarrow> pstate option" where
  "parse_step st t =
     (case st of
        WantValue fs \<Rightarrow> value_step fs t
      | WantFirstElement fs \<Rightarrow>
          (if t = TRBracket then Some (After (JArray []) fs) else value_step (InArray [] # fs) t)
      | WantFirstKey fs \<Rightarrow>
          (case t of
             TRBrace \<Rightarrow> Some (After (JObject []) fs)
           | TString k \<Rightarrow> Some (WantColon [] k fs)
           | _ \<Rightarrow> None)
      | WantKey ms fs \<Rightarrow> (case t of TString k \<Rightarrow> Some (WantColon ms k fs) | _ \<Rightarrow> None)
      | WantColon ms k fs \<Rightarrow>
          (if t = TColon then Some (WantValue (InObject ms k # fs)) else None)
      | After v fs \<Rightarrow> close_step v fs t)"

primrec parse_tokens :: "pstate \<Rightarrow> token list \<Rightarrow> jsval option" where
  "parse_tokens st [] = (case st of After v [] \<Rightarrow> Some v | _ \<Rightarrow> None)"
| "parse_tokens st (t # ts) =
     (case parse_step st t of None \<Rightarrow> None | Some st' \<Rightarrow> parse_tokens st' ts)"

text \<open>\<open>JSON.parse(text)\<close>: the value, or \<open>None\<close> where the source throws SyntaxError.\<close>

definition JSON_parse :: "string \<Rightarrow> jsval option" where
  "JSON_parse s = (case lex s of None \<Rightarrow> None | Some ts \<Rightarrow> parse_tokens (WantValue []) ts)"


text \<open>
  How a value reads inside a template literal (\<open>`${v}`\<close>) or a string
  concatenation. A numeral is printed as read, which is what the source prints for a
  numeral in its shortest form. In an array's text, \<open>null\<close> and \<open>undefined\<close> elements
  are empty.
\<close>

fun join :: "string \<Rightarrow> string list \<Rightarrow> string" where
  "join sep [] = []"
| "join sep [x] = x"
| "join sep (x # y # zs) = x @ sep @ join sep (y # zs)"

fun to_string :: "jsval \<Rightarrow> string" where
  "to_string Undefined = ''undefined''"
| "to_string JNull = ''null''"
| "to_string (JBool b) = (if b then ''true'' else ''false'')"
| "to_string (JNumber n) = n"
| "to_string (JString t) = t"
| "to_string (JArray vs) =
     join '','' (map (\<lambda>v. if v = Undefined \<or> v = JNull then [] else to_string v) vs)"
| "to_string (JObject ms) = ''[object Object]''"

text \<open>A text that may be \<open>undefined\<close>, inside a template literal.\<close>

definition interpolate :: "string option \<Rightarrow> string" where
  "interpolate t = (case t of None \<Rightarrow> ''undefined'' | Some x \<Rightarrow> x)"

text \<open>\<open>if (t)\<close> for a text that may be \<open>undefined\<close>: the empty text is falsy.\<close>

definition truthy :: "string option \<Rightarrow> bool" where
  "truthy t = (case t of None \<Rightarrow> False | Some x \<Rightarrow> x \<noteq> [])"

text \<open>The decimal numeral of a number, as a template literal prints \<open>${i+1}\<close>.\<close>

fun decimal :: "nat \<Rightarrow> string" where
  "decimal n =
     (if n < 10 then [''0123456789'' ! n]
      else decimal (n div 10) @ [''0123456789'' ! (n mod 10)])"

declare decimal.simps [simp del]

section \<open>Data model\<close>

text \<open>
  The stage of a conversation: the source's \<open>'started'\<close>, \<open>'asking_questions'\<close>,
  \<open>'generating'\<close>.
\<close>

datatype stage = Started | AskingQuestions | Generating

text \<open>A file of a message: its \<open>id\<close>, and its \<open>filetype\<close> where the platform gives one.\<close>

record slack_file =
  file_id :: string
  filetype :: "string option"

text \<open>
  A message as the platform delivers it: the event of a direct message, the message a
  shortcut was invoked on, and a reply of a thread. A field the platform left out is
  \<open>None\<close>; no files is the empty list.
\<close>

record message =
  channel_type :: string
  channel :: string
  user :: "string option"
  text' :: "string option"
  files :: "slack_file list"
  bot_id :: "string option"
  subtype :: "string option"
  ts :: string
  thread_ts :: "string option"

record command =
  user_id :: string
  team_id :: string

record shortcut =
  shortcut_user :: string
  shortcut_team :: string
  shortcut_channel :: string
  shortcut_message :: message

text \<open>
  An entry of \<open>conversations\<close>. \<open>context'\<close> is the source's \<open>context\<close>. A property the
  object literal does not set is \<open>Undefined\<close> or \<open>None\<close>.
\<close>

record session =
  userId :: string
  stage :: stage
  context' :: "string option"
  participants :: string
  clarifyingQuestions :: jsval
  clarifyingAnswers :: "string option"
  rawMessages :: "message list option"
  originalChannel :: "string option"
  threadTs :: "string option"

text \<open>
  The global \<open>conversations\<close> object maps a channel to a session object; the objects
  live in a heap, since a handler keeps the object it looked up (\<open>conversation\<close>) across
  its awaits while the entry of the channel may be deleted or replaced.
\<close>

record store =
  conversations :: "string \<rightharpoonup> nat"
  heap :: "nat \<rightharpoonup> session"
  fresh :: nat

definition empty_store :: "store" where
  "empty_store = \<lparr>conversations = Map.empty, heap = Map.empty, fresh = 0\<rparr>"

text \<open>\<open>conversations[ch] = {...}\<close>: a new object.\<close>

definition assign_conversation :: "string \<Rightarrow> session \<Rightarrow> store \<Rightarrow> store" where
  "assign_conversation ch c w =
     w\<lparr>conversations := (conversations w)(ch \<mapsto> fresh w),
       heap := (heap w)(fresh w \<mapsto> c),
       fresh := Suc (fresh w)\<rparr>"

text \<open>\<open>delete conversations[ch]\<close>.\<close>

definition delete_conversation :: "string \<Rightarrow> store \<Rightarrow> store" where
  "delete_conversation ch w = w\<lparr>conversations := (conversations w)(ch := None)\<rparr>"

text \<open>An assignment to fields of the session object \<open>r\<close>.\<close>

definition modify_session :: "nat \<Rightarrow> (session \<Rightarrow> session) \<Rightarrow> store \<Rightarrow> store" where
  "modify_session r f w =
     (case heap w r of None \<Rightarrow> w | Some c \<Rightarrow> w\<lparr>heap := (heap w)(r \<mapsto> f c)\<rparr>)"

section \<open>Effects\<close>

text \<open>
  The calls a handler awaits: the Messaging Gateway (\<open>ack\<close>, \<open>respond\<close>,
  \<open>client.conversations.open\<close>, \<open>client.chat.postMessage\<close> with its channel, thread and
  text, \<open>client.conversations.replies\<close>, \<open>client.files.info\<close>), the download
  (\<open>axios.get\<close>) and the Draft Generator (\<open>axios.post\<close> to the messages endpoint, with
  the prompt and \<open>max_tokens\<close>).
\<close>

datatype request =
    Ack
  | Respond string
  | ConversationsOpen string
  | ChatPostMessage string "string option" string
  | ConversationsReplies string string
  | FilesInfo string
  | AxiosGet string
  | AnthropicMessages string nat

text \<open>An exception: a platform error with its code (\<open>error.data.error\<close>), a TypeError, an \<open>Error\<close> with its message.\<close>

datatype err = PlatformError string | TypeError | Error string

text \<open>
  What a call resolves with, as far as the handlers read it: the channel of
  \<open>conversations.open\<close>, the \<open>messages\<close> of \<open>conversations.replies\<close>, the \<open>url_private\<close>
  of \<open>files.info\<close>, the \<open>data\<close> of the download (a text, or another value given by its
  \<open>JSON.stringify\<close>), and the \<open>content\<close> blocks of the Draft Generator, each given by its
  \<open>text\<close> (\<open>None\<close> for a block that has no \<open>text\<close>).
\<close>

datatype body = TextBody string | OtherBody string

datatype payload =
    NoPayload
  | Channel string
  | Messages "message list option"
  | FileUrl string
  | Data body
  | Content "string option list"

datatype response = Rejected err | Resolved payload

text \<open>
  An asynchronous function body. \<open>Done v\<close>: the statements ran to their end (with value
  \<open>v\<close>); \<open>Exit v\<close>: a \<open>return\<close> statement leaves the enclosing function; \<open>Throw\<close>: an
  exception is propagating; \<open>Call\<close>: an awaited call and what runs on its result;
  \<open>Read\<close> and \<open>Write\<close>: the shared store; \<open>Fork c p\<close>: an async call that is not
  awaited (\<open>c\<close> runs to its first await, then \<open>p\<close> goes on).
\<close>

datatype prog =
    Done jsval
  | Exit jsval
  | Throw err
  | Call request "response \<Rightarrow> prog"
  | Read "store \<Rightarrow> prog"
  | Write "store \<Rightarrow> store" prog
  | Fork prog prog

text \<open>\<open>p; f(v)\<close>: \<open>f\<close> runs on the value of \<open>p\<close>, unless \<open>p\<close> returned or threw.\<close>

primrec bind :: "prog \<Rightarrow> (jsval \<Rightarrow> prog) \<Rightarrow> prog" where
  "bind (Done v) f = f v"
| "bind (Exit v) f = Exit v"
| "bind (Throw e) f = Throw e"
| "bind (Call q k) f = Call q (\<lambda>r. bind (k r) f)"
| "bind (Read k) f = Read (\<lambda>w. bind (k w) f)"
| "bind (Write g p) f = Write g (bind p f)"
| "bind (Fork c p) f = Fork c (bind p f)"

definition seq :: "prog \<Rightarrow> prog \<Rightarrow> prog" where
  "seq p q = bind p (\<lambda>_. q)"

text \<open>\<open>try { p } catch (error) { h(error) }\<close>. What a forked call throws is not caught.\<close>

primrec try_catch :: "prog \<Rightarrow> (err \<Rightarrow> prog) \<Rightarrow> prog" where
  "try_catch (Done v) h = Done v"
| "try_catch (Exit v) h = Exit v"
| "try_catch (Throw e) h = h e"
| "try_catch (Call q k) h = Call q (\<lambda>r. try_catch (k r) h)"
| "try_catch (Read k) h = Read (\<lambda>w. try_catch (k w) h)"
| "try_catch (Write g p) h = Write g (try_catch p h)"
| "try_catch (Fork c p) h = Fork c (try_catch p h)"

text \<open>
  A function body as seen by its caller: a \<open>return v\<close> gives \<open>v\<close>, running off the end
  gives \<open>undefined\<close>.
\<close>

primrec func :: "prog \<Rightarrow> prog" where
  "func (Done v) = Done Undefined"
| "func (Exit v) = Done v"
| "func (Throw e) = Throw e"
| "func (Call q k) = Call q (\<lambda>r. func (k r))"
| "func (Read k) = Read (\<lambda>w. func (k w))"
| "func (Write g p) = Write g (func p)"
| "func (Fork c p) = Fork c (func p)"

definition update :: "(store \<Rightarrow> store) \<Rightarrow> prog" where
  "update g = Write g (Done Undefined)"

text \<open>An awaited call whose result is not read.\<close>

definition await :: "request \<Rightarrow> prog" where
  "await q = Call q (\<lambda>r. case r of Rejected e \<Rightarrow> Throw e | Resolved _ \<Rightarrow> Done Undefined)"

definition postMessage :: "string \<Rightarrow> string \<Rightarrow> prog" where
  "postMessage ch t = await (ChatPostMessage ch None t)"

section \<open>Running handlers\<close>

text \<open>
  The system: the store, the requests issued so far (in order), the tasks suspended at
  an await (the request each waits for and what it does with the response), and the
  exceptions no handler caught.
\<close>

record sys =
  mem :: store
  issued :: "request list"
  tasks :: "(request \<times> (response \<Rightarrow> prog)) list"
  unhandled :: "err list"

datatype outcome = Completed jsval | Raised err | Awaiting request "response \<Rightarrow> prog"

definition settle :: "outcome \<times> sys \<Rightarrow> sys" where
  "settle x =
     (case x of
        (Completed v, s) \<Rightarrow> s
      | (Raised e, s) \<Rightarrow> s\<lparr>unhandled := unhandled s @ [e]\<rparr>
      | (Awaiting q k, s) \<Rightarrow> s\<lparr>tasks := tasks s @ [(q, k)]\<rparr>)"

text \<open>A task runs, without interruption, until it ends or reaches its next await.\<close>

primrec advance :: "prog \<Rightarrow> sys \<Rightarrow> outcome \<times> sys" where
  "advance (Done v) = (\<lambda>s. (Completed v, s))"
| "advance (Exit v) = (\<lambda>s. (Completed v, s))"
| "advance (Throw e) = (\<lambda>s. (Raised e, s))"
| "advance (Call q k) = (\<lambda>s. (Awaiting q k, s\<lparr>issued := issued s @ [q]\<rparr>))"
| "advance (Read k) = (\<lambda>s. advance (k (mem s)) s)"
| "advance (Write g p) = (\<lambda>s. advance p (s\<lparr>mem := g (mem s)\<rparr>))"
| "advance (Fork c p) = (\<lambda>s. advance p (settle (advance c s)))"

definition start :: "prog \<Rightarrow> sys \<Rightarrow> sys" where
  "start p s = settle (advance p s)"

text \<open>The call the \<open>i\<close>-th suspended task waits for settles with \<open>r\<close>.\<close>

definition resolve :: "nat \<Rightarrow> response \<Rightarrow> sys \<Rightarrow> sys" where
  "resolve i r s =
     (if i < length (tasks s)
      then start (snd (tasks s ! i) r) (s\<lparr>tasks := take i (tasks s) @ drop (Suc i) (tasks s)\<rparr>)
      else s)"

text \<open>
  One handler alone: it starts, and its calls settle with the given responses, one
  after the other, with no other event in between.
\<close>

definition run :: "prog \<Rightarrow> response list \<Rightarrow> sys \<Rightarrow> sys" where
  "run p rs s = foldl (\<lambda>s r. resolve 0 r s) (start p s) rs"



section \<open>Fixed texts\<close>

text \<open>
  The texts of the source, unit by unit. Where a pictograph is meant, the source file
  holds one character for each byte of the pictograph's UTF-8 form (the character that
  byte denotes in Mac OS Roman); each is one unit here too, written as that byte, since
  most of these characters lie beyond the units 0..255. So the length of a text is as in
  the source, and its units are, except at these places.
\<close>

definition participants_line :: "string \<Rightarrow> string" where
  "participants_line participants0 =
     (if participants0 \<noteq> [] then ''The participants are: '' @ participants0 else [])"

definition finalQuestion :: \<open>string\<close> where
  \<open>finalQuestion =
     ''Is there anything else I should know about this decision before proceeding?''\<close>

definition questions_heading :: \<open>string\<close> where
  \<open>questions_heading =
     ''*Clarifying questions'' @
     [CHR 0xE2, CHR 0x9D, CHR 0x93] @
     ''*\<newline>''\<close>

definition questions_footer :: \<open>string\<close> where
  \<open>questions_footer =
     ''*Please answer each question in order.* You can number your responses for clarity. '' @
     [CHR 0xF0, CHR 0x9F, CHR 0x91, CHR 0x80]\<close>

definition command_reply :: \<open>string \<Rightarrow> string\<close> where
  \<open>command_reply dmLink =
     ''I'll send you a direct message to help create your Decision Memo. <'' @
     dmLink @
     ''|Click here to open our conversation>''\<close>

definition dm_link :: \<open>string \<Rightarrow> string \<Rightarrow> string\<close> where
  \<open>dm_link team dmChannelId =
     ''slack://channel?team='' @
     team @
     ''&id='' @
     dmChannelId\<close>

definition start_text :: \<open>string\<close> where
  \<open>start_text =
     '':memo: I'll help you create a Decision Memo. *Please paste* the relevant conversation '' @
     ''from Slack, a meeting transcript, or other notes so we can generate the memo. Include '' @
     ''as much context as might be helpful.\<newline>'' @
     ''\<newline>'' @
     ''*Note:* If your transcript is too long to paste into Slack, you can upload a .txt '' @
     ''file instead. (Respond with "stop" at any time to terminate this process)''\<close>

definition command_error_text :: \<open>string\<close> where
  \<open>command_error_text =
     ''Sorry, there was an error starting the Decision Memo process. Please try again.''\<close>

definition thread_notice :: \<open>string \<Rightarrow> string \<Rightarrow> string\<close> where
  \<open>thread_notice user0 dmLink =
     ''<@'' @
     user0 @
     ''> :memo: I'm creating a Decision Memo based on this thread. <'' @
     dmLink @
     ''|Click here to open our conversation> and I'll guide you through the process.''\<close>

definition invite_text :: \<open>string \<Rightarrow> string\<close> where
  \<open>invite_text channelId =
     '':warning: Thanks for using the Decision Memo tool. Before we can proceed, *I need to '' @
     ''be added to the <#'' @
     channelId @
     ''> channel so I can access thread messages.*\<newline>'' @
     ''\<newline>'' @
     ''*To add me to the channel:*\<newline>'' @
     ''1. Go to <#'' @
     channelId @
     ''>\<newline>'' @
     ''2. Type and send: `/invite @Decision Memo`\<newline>'' @
     ''3. Launch the message shortcut again in your thread\<newline>'' @
     ''\<newline>''\<close>

definition thread_intro_text :: \<open>string \<Rightarrow> string\<close> where
  \<open>thread_intro_text channelId =
     '':memo: I'm creating a Decision Memo based on the thread in <#'' @
     channelId @
     ''>. (Respond with "stop" at any time to terminate this process)''\<close>

definition thread_preview_text :: \<open>string \<Rightarrow> string\<close> where
  \<open>thread_preview_text blockquotedParent =
     ''I've captured the thread starting with this message:\<newline>'' @
     ''\<newline>'' @
     blockquotedParent @ ''\<newline>'' @
     ''\<newline>'' @
     ''I'm analyzing the conversation to determine if I need any clarifying information...''\<close>

definition trouble_text :: \<open>string\<close> where
  \<open>trouble_text =
     ''I had trouble generating clarifying questions, but I'll create a Decision Memo based '' @
     ''on the information I have. This may take a moment... '' @
     [CHR 0xE2, CHR 0x8F, CHR 0xB3]\<close>

definition memo_error_text :: \<open>string\<close> where
  \<open>memo_error_text =
     ''Sorry, I encountered an error generating the memo. Please try again or contact the '' @
     ''administrator.''\<close>

definition message_intro_text :: \<open>string \<Rightarrow> string\<close> where
  \<open>message_intro_text channelId =
     '':memo: I'm creating a Decision Memo based on a message from <#'' @
     channelId @
     ''>. (Respond with "stop" at any time to terminate this process)''\<close>

definition message_preview_text :: \<open>string \<Rightarrow> string\<close> where
  \<open>message_preview_text blockquotedText =
     ''I've captured the message:\<newline>'' @
     ''\<newline>'' @
     blockquotedText @ ''\<newline>'' @
     ''\<newline>'' @
     ''I'm analyzing the conversation to determine if I need any clarifying information...''\<close>

definition analyzing_text :: \<open>string\<close> where
  \<open>analyzing_text =
     ''I'm analyzing the conversation to determine if I need any clarifying information...''\<close>

definition shortcut_error_text :: \<open>string \<Rightarrow> string\<close> where
  \<open>shortcut_error_text user0 =
     '':warning: <@'' @
     user0 @
     ''> Sorry, there was an error processing your Decision Memo request. Please try again.''\<close>

definition memo_intro_text :: \<open>string\<close> where
  \<open>memo_intro_text =
     [CHR 0xE2, CHR 0x9C, CHR 0x85] @
     '' Here's your Decision Memo that you can copy to Notion:''\<close>

definition closing_text :: \<open>string\<close> where
  \<open>closing_text =
     [CHR 0xF0, CHR 0x9F, CHR 0x99, CHR 0x8C] @
     '' Thanks for using the Decision Memo tool. Be sure to add your memo to the Decision '' @
     ''Log and make any necessary refinements before publishing.\<newline>'' @
     ''\<newline>'' @
     [CHR 0xF0, CHR 0x9F, CHR 0x94, CHR 0x81] @
     '' Start again anytime with the `/decisionmemo` command or via the message shortcut. '' @
     ''Please share any constructive feedback about this tool directly with @ryan.''\<close>

definition stop_text :: \<open>string\<close> where
  \<open>stop_text =
     [CHR 0xF0, CHR 0x9F, CHR 0x9B, CHR 0x91] @
     '' I've stopped the Decision Memo process. '' @
     [CHR 0xF0, CHR 0x9F, CHR 0x94, CHR 0x81] @
     '' Start again anytime with the `/decisionmemo` command or via the message shortcut. '' @
     ''Please share any constructive feedback about this tool directly with @ryan.''\<close>

definition context_thanks_text :: \<open>string\<close> where
  \<open>context_thanks_text =
     ''Thanks for providing the context. I'm analyzing the conversation to determine if I '' @
     ''need any clarifying information...''\<close>

definition generating_text :: \<open>string\<close> where
  \<open>generating_text =
     ''Thanks for the information. I'm now generating your Decision Memo. This may take a '' @
     ''moment... '' @
     [CHR 0xE2, CHR 0x8F, CHR 0xB3]\<close>

definition message_error_text :: \<open>string\<close> where
  \<open>message_error_text =
     ''Sorry, there was an error processing your message. Please try again.''\<close>

definition file_type_text :: \<open>string\<close> where
  \<open>file_type_text =
     ''I can only process text (.txt) files. Please upload a text file or paste your context '' @
     ''directly.''\<close>

definition truncation_note :: \<open>string\<close> where
  \<open>truncation_note =
     ''\<newline>'' @
     ''\<newline>'' @
     ''[Note: File was truncated as it exceeded maximum length. Only the first portion is '' @
     ''being processed.]''\<close>

definition file_thanks_text :: \<open>string\<close> where
  \<open>file_thanks_text =
     ''Thanks for uploading the file. I'm analyzing the content to determine if I need any '' @
     ''clarifying information...''\<close>

definition missing_scope_text :: \<open>string\<close> where
  \<open>missing_scope_text =
     ''Sorry, I don't have permission to read files yet. The app needs to be reinstalled '' @
     ''with the 'files:read' permission. Please paste the content directly instead or '' @
     ''contact the administrator to update permissions.''\<close>

definition file_error_text :: \<open>string\<close> where
  \<open>file_error_text =
     ''Sorry, there was an error processing your file. Please try pasting the content '' @
     ''directly instead.''\<close>

text \<open>The prompt of \<open>generateClarifyingQuestions\<close> (its template literal, with the two values it interpolates).\<close>

definition clarifying_prompt :: \<open>string option \<Rightarrow> string \<Rightarrow> string\<close> where
  \<open>clarifying_prompt context participants0 =
     ''\<newline>'' @
     ''You are a seasoned executive decision-maker at a company that values first-principles '' @
     ''thinking, ownership, mission focus, and the courage to speak truth. You're analyzing '' @
     ''a conversation to identify if any critical information is missing to create a '' @
     ''comprehensive Decision Memo.\<newline>'' @
     ''\<newline>'' @
     ''The conversation context is:\<newline>'' @
     interpolate context @
     ''\<newline>'' @
     ''\<newline>'' @
     participants_line participants0 @
     ''\<newline>'' @
     ''\<newline>'' @
     ''The Decision Memo needs to answer these five questions:\<newline>'' @
     ''1. What is the choice you made?\<newline>'' @
     ''2. Why make this decision? What were the factors involved?\<newline>'' @
     ''3. What are the risks of making this decision?\<newline>'' @
     ''4. What is the compensation / reward for taking those risks?\<newline>'' @
     ''5. What other choices did you consider?\<newline>'' @
     ''\<newline>'' @
     ''As an executive with strong strategic vision, apply your judgment to determine if '' @
     ''truly essential information is missing. Ask 1-2 high-impact questions that would help '' @
     ''you understand:\<newline>'' @
     ''\<newline>'' @
     ''- The first-principles reasoning behind this decision (getting to the root of the '' @
     ''problem)\<newline>'' @
     ''- How this decision connects to broader mission objectives or long-term strategy\<newline>'' @
     ''- The ownership perspective (who's taking responsibility, what "bet" is being placed)\<newline>'' @
     ''- Whether alternatives were thoroughly considered from first principles\<newline>'' @
     ''- Qualitative assessment of risks (not just listing them)\<newline>'' @
     ''- Both direct and indirect benefits or strategic advantages\<newline>'' @
     ''\<newline>'' @
     ''If it's not clear from the context who key participants are and what their roles are, '' @
     ''you should ask about that, but ONLY if it's truly necessary to understand the '' @
     ''decision context.\<newline>'' @
     ''\<newline>'' @
     ''Do not ask questions merely for curiosity or implementation details - focus on '' @
     ''questions that would substantially improve the strategic depth of the Decision Memo.\<newline>'' @
     ''\<newline>'' @
     ''Format your response as a JSON array of strings, with no more than 2 SPECIFIC '' @
     ''questions. Example:\<newline>'' @
     ''["What fundamental problem or opportunity is this decision addressing at its root?"]\<newline>'' @
     ''\<newline>'' @
     ''If the conversation already provides sufficient strategic context and '' @
     ''first-principles reasoning, return an empty array:\<newline>'' @
     ''[]\<newline>'' @
     ''\<newline>'' @
     ''DO NOT include a generic question like "Is there anything else I should know about '' @
     ''this decision before proceeding?" in your response - this question will be asked '' @
     ''separately.\<newline>''\<close>

text \<open>The prompt of \<open>generateDecisionMemo\<close>.\<close>

definition memo_prompt :: \<open>string option \<Rightarrow> string \<Rightarrow> string\<close> where
  \<open>memo_prompt context participants0 =
     ''\<newline>'' @
     ''You are writing a Decision Memo as an executive who values first-principles thinking, '' @
     ''ownership, mission alignment, and truth-speaking.\<newline>'' @
     ''\<newline>'' @
     ''The conversation context is:\<newline>'' @
     interpolate context @
     ''\<newline>'' @
     ''\<newline>'' @
     participants_line participants0 @
     ''\<newline>'' @
     ''\<newline>'' @
     ''Create a Decision Memo that answers these five questions:\<newline>'' @
     ''1. What is the choice you made?\<newline>'' @
     ''2. Why make this decision? What were the factors involved?\<newline>'' @
     ''3. What are the risks of making this decision?\<newline>'' @
     ''4. What is the compensation / reward for taking those risks?\<newline>'' @
     ''5. What other choices did you consider?\<newline>'' @
     ''\<newline>'' @
     ''Begin with a concise title for the decision memo in the format:\<newline>'' @
     ''# [Title of Decision]\<newline>'' @
     ''\<newline>'' @
     ''For example:\<newline>'' @
     ''# Renaming Product Indices\<newline>'' @
     ''\<newline>'' @
     ''Then follow with these exact headings in Slack bold format (using asterisks):\<newline>'' @
     ''*What is the choice you made?*\<newline>'' @
     ''[Answer - be clear and concise about the decision made]\<newline>'' @
     ''\<newline>'' @
     ''*Why make this decision? What were the factors involved?*\<newline>'' @
     ''[Use bullet points that start with a single asterisk immediately followed by text '' @
     ''with no space in between]\<newline>'' @
     ''\<newline>'' @
     ''*What are the risks of making this decision?*\<newline>'' @
     ''[Use bullet points that start with a single asterisk immediately followed by text '' @
     ''with no space in between]\<newline>'' @
     ''\<newline>'' @
     ''*What is the compensation / reward for taking those risks?*\<newline>'' @
     ''[Use bullet points that start with a single asterisk immediately followed by text '' @
     ''with no space in between]\<newline>'' @
     ''\<newline>'' @
     ''*What other choices did you consider?*\<newline>'' @
     ''[Use bullet points that start with a single asterisk immediately followed by text '' @
     ''with no space in between]\<newline>'' @
     ''\<newline>'' @
     ''IMPORTANT FORMATTING INSTRUCTIONS:\<newline>'' @
     ''1. Each bullet point should begin with a single asterisk (*) immediately followed by '' @
     ''text with no space in between.\<newline>'' @
     ''2. Do not use nested formatting within bullet points - avoid using bold or other '' @
     ''special formatting inside bullet points.\<newline>'' @
     ''3. If you need to emphasize a point, use ALL CAPS for emphasis instead.\<newline>'' @
     ''4. Keep all bullet points as single, continuous lines of text.\<newline>'' @
     ''\<newline>'' @
     ''IMPORTANT STRUCTURE GUIDELINES:\<newline>'' @
     ''1. Vary your approach to each section based on what's most relevant - some sections '' @
     ''may need only 2-3 key points while others might require more depth.\<newline>'' @
     ''2. Prioritize quality over quantity - it's better to have 3 insightful points than 6 '' @
     ''superficial ones.\<newline>'' @
     ''3. Consider the relative importance of each section for this particular decision - '' @
     ''not all sections need equal detail.\<newline>'' @
     ''4. For the most nuanced or complex points, consider using a brief paragraph instead '' @
     ''of a bullet point when it would be clearer.\<newline>'' @
     ''5. Make the memo feel organic and thoughtful rather than formulaic - avoid having '' @
     ''exactly the same number of points in each section.\<newline>'' @
     ''\<newline>'' @
     ''Be concise but thorough in your content. Don't fabricate information, but do connect '' @
     ''the decision to deeper strategic thinking where the connection is clear from the '' @
     ''context.\<newline>''\<close>

text \<open>The prompt of \<open>generateDecisionMemoWithClarification\<close>.\<close>

definition clarified_memo_prompt :: \<open>string option \<Rightarrow> string \<Rightarrow> string \<Rightarrow> string\<close> where
  \<open>clarified_memo_prompt context participants0 clarification =
     ''\<newline>'' @
     ''You are writing a Decision Memo as an executive who values first-principles thinking, '' @
     ''ownership, mission alignment, and truth-speaking.\<newline>'' @
     ''\<newline>'' @
     ''The conversation context is:\<newline>'' @
     interpolate context @
     ''\<newline>'' @
     ''\<newline>'' @
     participants_line participants0 @
     ''\<newline>'' @
     ''\<newline>'' @
     ''Additional clarification:\<newline>'' @
     clarification @
     ''\<newline>'' @
     ''\<newline>'' @
     ''Create a Decision Memo that answers these five questions:\<newline>'' @
     ''1. What is the choice you made?\<newline>'' @
     ''2. Why make this decision? What were the factors involved?\<newline>'' @
     ''3. What are the risks of making this decision?\<newline>'' @
     ''4. What is the compensation / reward for taking those risks?\<newline>'' @
     ''5. What other choices were considered?\<newline>'' @
     ''\<newline>'' @
     ''Begin with a concise title for the decision memo in the format:\<newline>'' @
     ''# [Title of Decision]\<newline>'' @
     ''\<newline>'' @
     ''For example:\<newline>'' @
     ''# Renaming Product Indices\<newline>'' @
     ''\<newline>'' @
     ''Then follow with these exact headings in Slack bold format (using asterisks):\<newline>'' @
     ''*What is the choice you made?*\<newline>'' @
     ''[Answer - be clear and concise about the decision made]\<newline>'' @
     ''\<newline>'' @
     ''*Why make this decision? What were the factors involved?*\<newline>'' @
     ''[Use bullet points that start with a single asterisk immediately followed by text '' @
     ''with no space in between]\<newline>'' @
     ''\<newline>'' @
     ''*What are the risks of making this decision?*\<newline>'' @
     ''[Use bullet points that start with a single asterisk immediately followed by text '' @
     ''with no space in between]\<newline>'' @
     ''\<newline>'' @
     ''*What is the compensation / reward for taking those risks?*\<newline>'' @
     ''[Use bullet points that start with a single asterisk immediately followed by text '' @
     ''with no space in between]\<newline>'' @
     ''\<newline>'' @
     ''*What other choices did you consider?*\<newline>'' @
     ''[Use bullet points that start with a single asterisk immediately followed by text '' @
     ''with no space in between]\<newline>'' @
     ''\<newline>'' @
     ''IMPORTANT FORMATTING INSTRUCTIONS:\<newline>'' @
     ''1. Each bullet point should begin with a single asterisk (*) immediately followed by '' @
     ''text with no space in between.\<newline>'' @
     ''2. Do not use nested formatting within bullet points - avoid using bold or other '' @
     ''special formatting inside bullet points.\<newline>'' @
     ''3. If you need to emphasize a point, use ALL CAPS for emphasis instead.\<newline>'' @
     ''4. Keep all bullet points as single, continuous lines of text.\<newline>'' @
     ''\<newline>'' @
     ''IMPORTANT STRUCTURE GUIDELINES:\<newline>'' @
     ''1. Vary your approach to each section based on what's most relevant - some sections '' @
     ''may need only 2-3 key points while others might require more depth.\<newline>'' @
     ''2. Prioritize quality over quantity - it's better to have 3 insightful points than 6 '' @
     ''superficial ones.\<newline>'' @
     ''3. Consider the relative importance of each section for this particular decision - '' @
     ''not all sections need equal detail.\<newline>'' @
     ''4. For the most nuanced or complex points, consider using a brief paragraph instead '' @
     ''of a bullet point when it would be clearer.\<newline>'' @
     ''5. Make the memo feel organic and thoughtful rather than formulaic - avoid having '' @
     ''exactly the same number of points in each section.\<newline>'' @
     ''\<newline>'' @
     ''ADDITIONAL CONTENT INSTRUCTIONS:\<newline>'' @
     ''1. Carefully incorporate insights from ALL the clarifying questions and answers, '' @
     ''especially the final "anything else" question.\<newline>'' @
     ''2. Pay special attention to any new information that was provided in response to the '' @
     ''final question.\<newline>'' @
     ''3. Make sure the decision memo reflects a complete understanding of the situation, '' @
     ''including any nuances, concerns, or context added in the clarification phase.\<newline>'' @
     ''4. Connect these additional insights to the strategic reasoning, risk assessment, and '' @
     ''alternatives consideration.\<newline>'' @
     ''\<newline>'' @
     ''Be concise but thorough in your content. Don't fabricate information, but do connect '' @
     ''the decision to deeper strategic thinking where the connection is clear from the '' @
     ''context.\<newline>'' @
     ''\<newline>'' @
     ''DO NOT include the clarifying questions and answers in the memo.\<newline>''\<close>

text \<open>The template \<open>generateDecisionMemo\<close> returns when the call fails, line by line.\<close>

definition fallback_memo :: \<open>string\<close> where
  \<open>fallback_memo =
     join ''\<newline>''
       [''# Decision Memo'',
        [],
        ''*What is the choice you made?*'',
        ''Based on the conversation, a decision was made but I couldn't generate a specific '' @
        ''memo due to a technical issue.'',
        [],
        ''*Why make this decision? What were the factors involved?*'',
        ''*Several factors were likely considered'',
        [],
        ''*What are the risks of making this decision?*'',
        ''*There may be various risks associated with this decision'',
        [],
        ''*What is the compensation / reward for taking those risks?*'',
        ''*There are likely benefits to balance the risks'',
        [],
        ''*What other choices did you consider?*'',
        ''*Alternative approaches were likely evaluated'',
        [],
        ''Note: There was an error connecting to the AI service. Please try again later.'']\<close>

text \<open>The template \<open>generateDecisionMemoWithClarification\<close> returns when the call fails.\<close>

definition fallback_memo_with_clarification :: \<open>string\<close> where
  \<open>fallback_memo_with_clarification =
     join ''\<newline>''
       [''# Decision Memo'',
        [],
        ''*What is the choice you made?*'',
        ''Based on the conversation and clarification, a decision was made but I couldn't '' @
        ''generate a specific memo due to a technical issue.'',
        [],
        ''*Why make this decision? What were the factors involved?*'',
        ''*Several factors were likely considered'',
        [],
        ''*What are the risks of making this decision?*'',
        ''*There may be various risks associated with this decision'',
        [],
        ''*What is the compensation / reward for taking those risks?*'',
        ''*There are likely benefits to balance the risks'',
        [],
        ''*What other choices did you consider?*'',
        ''*Alternative approaches were likely evaluated'',
        [],
        ''Note: There was an error connecting to the AI service. Please try again later.'']\<close>

definition acceptableTypes :: "string list" where
  "acceptableTypes = [''text'', ''txt'', ''plain'']"

definition maxLength :: "nat" where
  "maxLength = 25000"

section \<open>Question Planner\<close>

text \<open>
  The questions read from the text of the response (the inner \<open>try\<close> of
  \<open>generateClarifyingQuestions\<close>): the strict parse, and where it throws, the
  extraction by the regular expression.
\<close>

definition extract_questions :: "string \<Rightarrow> string list" where
  \<open>extract_questions questionsText =
     filter (\<lambda>q. q \<noteq> [])
       (map (\<lambda>q. trim (strip_bracket_quotes (strip_quotes q)))
          (split questionsText [CHR 0x22, CHR '','', CHR 0x22]))\<close>

definition parse_questions :: "string \<Rightarrow> jsval list" where
  "parse_questions messageContent =
     (case JSON_parse messageContent of
        Some questions \<Rightarrow> (case questions of JArray qs \<Rightarrow> take 2 qs | _ \<Rightarrow> [])
      | None \<Rightarrow>
          (case match_bracketed messageContent of
             None \<Rightarrow> []
           | Some questionsText \<Rightarrow>
               if questionsText = [] then []
               else map JString (take 2 (extract_questions questionsText))))"

text \<open>
  \<open>response.data.content[0].text\<close>: the text of the first content block, \<open>undefined\<close>
  where that block has no text; \<open>None\<close> where reading it throws (there is no first
  block).
\<close>

definition content_text :: "payload \<Rightarrow> jsval option" where
  "content_text p =
     (case p of
        Content (b # _) \<Rightarrow> Some (case b of None \<Rightarrow> Undefined | Some t \<Rightarrow> JString t)
      | _ \<Rightarrow> None)"

text \<open>
  The planner reads the questions from the text. On \<open>undefined\<close> the strict parse throws,
  and so does \<open>messageContent.match\<close> in the inner \<open>catch\<close>; the outer \<open>catch\<close> gives the
  empty list.
\<close>

definition generateClarifyingQuestions :: "string option \<Rightarrow> string \<Rightarrow> prog" where
  "generateClarifyingQuestions context participants0 =
     func
       (try_catch
          (Call (AnthropicMessages (clarifying_prompt context participants0) 1000)
             (\<lambda>response.
                case response of
                  Rejected e \<Rightarrow> Throw e
                | Resolved p \<Rightarrow>
                    (case content_text p of
                       None \<Rightarrow> Throw TypeError
                     | Some (JString messageContent) \<Rightarrow>
                         Exit (JArray (parse_questions messageContent))
                     | Some _ \<Rightarrow> Throw TypeError)))
          (\<lambda>error. Exit (JArray [])))"

section \<open>Memo Composer\<close>

definition generateDecisionMemo :: "string option \<Rightarrow> string \<Rightarrow> prog" where
  "generateDecisionMemo context participants0 =
     func
       (try_catch
          (Call (AnthropicMessages (memo_prompt context participants0) 4000)
             (\<lambda>response.
                case response of
                  Rejected e \<Rightarrow> Throw e
                | Resolved p \<Rightarrow>
                    (case content_text p of
                       None \<Rightarrow> Throw TypeError
                     | Some decisionMemo \<Rightarrow> Exit decisionMemo)))
          (\<lambda>error. Exit (JString fallback_memo)))"

text \<open>
  \<open>questions.length\<close> and \<open>questions[i]\<close>: the elements of an array, the units of a
  text; \<open>None\<close> where reading \<open>length\<close> throws (\<open>undefined\<close>, \<open>null\<close>); any other value
  has no length and the loop does not run.
\<close>

definition indexable :: "jsval \<Rightarrow> jsval list option" where
  "indexable v =
     (case v of
        Undefined \<Rightarrow> None
      | JNull \<Rightarrow> None
      | JArray qs \<Rightarrow> Some qs
      | JString t \<Rightarrow> Some (map (\<lambda>c. JString [c]) t)
      | _ \<Rightarrow> Some [])"

text \<open>\<open>`${answers[i]}`\<close>: past the end of the array it reads \<open>undefined\<close>.\<close>

definition answer_at :: "string option list \<Rightarrow> nat \<Rightarrow> string" where
  "answer_at answers i = (if i < length answers then interpolate (answers ! i) else ''undefined'')"

text \<open>The loop that builds \<open>clarification\<close>.\<close>

definition clarification_text :: "jsval list \<Rightarrow> string option list \<Rightarrow> string" where
  "clarification_text questions answers =
     foldl
       (\<lambda>clarification i.
          clarification @ ''Question: '' @ to_string (questions ! i) @ ''\<newline>Answer: '' @
          answer_at answers i @ ''\<newline>\<newline>'')
       [] [0..<length questions]"

definition generateDecisionMemoWithClarification ::
  "string option \<Rightarrow> string \<Rightarrow> jsval \<Rightarrow> string option list \<Rightarrow> prog" where
  "generateDecisionMemoWithClarification context participants0 questions answers =
     func
       (try_catch
          (case indexable questions of
             None \<Rightarrow> Throw TypeError
           | Some qs \<Rightarrow>
               Call (AnthropicMessages
                       (clarified_memo_prompt context participants0 (clarification_text qs answers))
                       4000)
                 (\<lambda>response.
                    case response of
                      Rejected e \<Rightarrow> Throw e
                    | Resolved p \<Rightarrow>
                        (case content_text p of
                           None \<Rightarrow> Throw TypeError
                         | Some decisionMemo \<Rightarrow> Exit decisionMemo)))
          (\<lambda>error. Exit (JString fallback_memo_with_clarification)))"

section \<open>Output Formatter\<close>

text \<open>\<open>line.replace(/^#\s*/, '').replace(/:\s*$/, '')\<close>.\<close>

definition strip_title :: "string \<Rightarrow> string" where
  "strip_title line =
     (let t = (if prefix ''#'' line then dropWhile is_white_space (drop 1 line) else line);
          u = rev (dropWhile is_white_space (rev t))
      in if suffix '':'' u then butlast u else t)"

definition split_title :: "string \<Rightarrow> string \<times> string" where
  "split_title decisionMemo =
     (case split decisionMemo ''\<newline>'' of
        [] \<Rightarrow> ([], decisionMemo)
      | first # rest \<Rightarrow>
          if prefix ''# '' first \<or> prefix ''#'' first
          then (strip_title first, trim (join ''\<newline>'' rest))
          else ([], decisionMemo))"

definition processMemoAndRespond :: "string \<Rightarrow> jsval \<Rightarrow> prog" where
  "processMemoAndRespond channelId decisionMemo =
     func
       (case decisionMemo of
          JString memo \<Rightarrow>
            (case split_title memo of
               (memoTitle, memoContent) \<Rightarrow>
                 seq (postMessage channelId memo_intro_text)
                   (seq (postMessage channelId
                           (if memoTitle \<noteq> []
                            then ''*'' @ memoTitle @ ''*\<newline>\<newline>'' @ memoContent
                            else memoContent))
                      (postMessage channelId closing_text)))
        | _ \<Rightarrow> Throw TypeError)"


section \<open>Session State Machine\<close>

text \<open>\<open>clarifyingQuestions || []\<close>: a falsy value gives the empty array.\<close>

definition is_zero_numeral :: "string \<Rightarrow> bool" where
  "is_zero_numeral n =
     list_all (\<lambda>c. c \<in> set ''-0.'') (takeWhile (\<lambda>c. c \<noteq> CHR ''e'' \<and> c \<noteq> CHR ''E'') n)"

definition falsy :: "jsval \<Rightarrow> bool" where
  "falsy v =
     (case v of
        Undefined \<Rightarrow> True
      | JNull \<Rightarrow> True
      | JBool b \<Rightarrow> b = False
      | JNumber n \<Rightarrow> is_zero_numeral n
      | JString t \<Rightarrow> t = []
      | _ \<Rightarrow> False)"

definition or_empty_array :: "jsval \<Rightarrow> jsval" where
  "or_empty_array v = (if falsy v then JArray [] else v)"

text \<open>\<open>conversation.clarifyingQuestions.push(q)\<close> on the session object \<open>r\<close>.\<close>

definition push_question :: "nat \<Rightarrow> string \<Rightarrow> prog" where
  "push_question r q =
     Read (\<lambda>w.
       case heap w r of
         None \<Rightarrow> Throw TypeError
       | Some c \<Rightarrow>
           (case clarifyingQuestions c of
              JArray qs \<Rightarrow>
                update (modify_session r (\<lambda>c. c\<lparr>clarifyingQuestions := JArray (qs @ [JString q])\<rparr>))
            | _ \<Rightarrow> Throw TypeError))"

text \<open>The numbered list of the questions.\<close>

definition questions_message :: "jsval list \<Rightarrow> string" where
  "questions_message qs =
     foldl
       (\<lambda>questionsMessage i.
          questionsMessage @ decimal (i + 1) @ '') '' @ to_string (qs ! i) @ ''\<newline>\<newline>'')
       questions_heading [0..<length qs]
     @ questions_footer"

text \<open>
  The statements that store the questions of the session object \<open>r\<close>, add the
  catch-all question and post the list in channel \<open>ch\<close>.
\<close>

definition store_and_post_questions :: "nat \<Rightarrow> string \<Rightarrow> jsval \<Rightarrow> prog" where
  "store_and_post_questions r ch questions =
     seq (update (modify_session r (\<lambda>c. c\<lparr>clarifyingQuestions := or_empty_array questions\<rparr>)))
       (seq (push_question r finalQuestion)
          (Read (\<lambda>w.
             case heap w r of
               None \<Rightarrow> Throw TypeError
             | Some c \<Rightarrow>
                 (case indexable (clarifyingQuestions c) of
                    None \<Rightarrow> Throw TypeError
                  | Some qs \<Rightarrow> postMessage ch (questions_message qs)))))"

text \<open>
  The \<open>try\<close> block of the message handler and of \<open>handleFileUpload\<close> that plans the
  questions: it works on the session object the handler holds.
\<close>

definition ask_questions :: "nat \<Rightarrow> string \<Rightarrow> prog" where
  "ask_questions conversation ch =
     Read (\<lambda>w.
       case heap w conversation of
         None \<Rightarrow> Throw TypeError
       | Some c \<Rightarrow>
           bind (generateClarifyingQuestions (context' c) [])
             (store_and_post_questions conversation ch))"

text \<open>Its \<open>catch\<close> block: the memo is composed without questions, and the entry deleted.\<close>

definition compose_directly :: "nat \<Rightarrow> string \<Rightarrow> prog" where
  "compose_directly conversation ch =
     seq (postMessage ch trouble_text)
       (seq
          (try_catch
             (Read (\<lambda>w.
                case heap w conversation of
                  None \<Rightarrow> Throw TypeError
                | Some c \<Rightarrow>
                    bind (generateDecisionMemo (context' c) []) (processMemoAndRespond ch)))
             (\<lambda>memoError. postMessage ch memo_error_text))
          (update (delete_conversation ch)))"

text \<open>
  The same two blocks in the shortcut handler: they read \<open>conversations[dmChannelId]\<close>
  anew (a TypeError where the entry is gone), and \<open>processMemoAndRespond\<close> is called
  without \<open>await\<close>.
\<close>

definition ask_questions_of_channel :: "string \<Rightarrow> string \<Rightarrow> prog" where
  "ask_questions_of_channel dmChannelId content =
     bind (generateClarifyingQuestions (Some content) [])
       (\<lambda>questions.
          Read (\<lambda>w.
            case conversations w dmChannelId of
              None \<Rightarrow> Throw TypeError
            | Some r \<Rightarrow> store_and_post_questions r dmChannelId questions))"

definition compose_directly_of_channel :: "string \<Rightarrow> string \<Rightarrow> prog" where
  "compose_directly_of_channel dmChannelId content =
     seq (postMessage dmChannelId trouble_text)
       (seq
          (try_catch
             (bind (generateDecisionMemo (Some content) [])
                (\<lambda>decisionMemo.
                   Fork (processMemoAndRespond dmChannelId decisionMemo) (Done Undefined)))
             (\<lambda>memoError. postMessage dmChannelId memo_error_text))
          (update (delete_conversation dmChannelId)))"

subsection \<open>The slash command\<close>

definition command_handler :: "command \<Rightarrow> prog" where
  "command_handler cmd =
     func
       (seq (await Ack)
          (try_catch
             (Call (ConversationsOpen (user_id cmd))
                (\<lambda>dmResult.
                   case dmResult of
                     Rejected e \<Rightarrow> Throw e
                   | Resolved (Channel dmChannelId) \<Rightarrow>
                       seq (await (Respond (command_reply (dm_link (team_id cmd) dmChannelId))))
                         (seq
                            (update
                               (assign_conversation dmChannelId
                                  \<lparr>userId = user_id cmd, stage = Started, context' = Some [],
                                   participants = [], clarifyingQuestions = Undefined,
                                   clarifyingAnswers = None, rawMessages = None,
                                   originalChannel = None, threadTs = None\<rparr>))
                            (postMessage dmChannelId start_text))
                   | Resolved _ \<Rightarrow> Throw TypeError))
             (\<lambda>error. await (Respond command_error_text))))"

subsection \<open>File upload\<close>

text \<open>The text of a downloaded payload: a text as it is, another value by \<open>JSON.stringify\<close>.\<close>

definition file_text :: "body \<Rightarrow> string" where
  "file_text b = (case b of TextBody t \<Rightarrow> t | OtherBody t \<Rightarrow> t)"

definition truncate_content :: "string \<Rightarrow> string" where
  "truncate_content fileContent =
     (if length fileContent > maxLength
      then take maxLength fileContent @ truncation_note
      else fileContent)"

definition err_message :: "err \<Rightarrow> string" where
  "err_message e =
     (case e of
        PlatformError code \<Rightarrow> ''An API error occurred: '' @ code
      | TypeError \<Rightarrow> ''TypeError''
      | Error m \<Rightarrow> m)"

definition handleFileUpload :: "nat \<Rightarrow> message \<Rightarrow> prog" where
  "handleFileUpload conversation msg =
     func
       (case files msg of
          [] \<Rightarrow> Throw TypeError
        | f # _ \<Rightarrow>
            try_catch
              (case filetype f of
                 None \<Rightarrow> Throw TypeError
               | Some t \<Rightarrow>
               if toLowerCase t \<notin> set acceptableTypes
               then seq (postMessage (channel msg) file_type_text) (Exit Undefined)
               else
                 Call (FilesInfo (file_id f))
                   (\<lambda>fileInfo.
                      case fileInfo of
                        Rejected e \<Rightarrow> Throw e
                      | Resolved (FileUrl url_private) \<Rightarrow>
                          try_catch
                            (Call (AxiosGet url_private)
                               (\<lambda>fileContentResponse.
                                  case fileContentResponse of
                                    Rejected e \<Rightarrow> Throw e
                                  | Resolved (Data b) \<Rightarrow>
                                      seq
                                        (update
                                           (modify_session conversation
                                              (\<lambda>c. c\<lparr>context' :=
                                                       Some (truncate_content (file_text b))\<rparr>)))
                                        (seq (postMessage (channel msg) file_thanks_text)
                                           (try_catch
                                              (seq
                                                 (update
                                                    (modify_session conversation
                                                       (\<lambda>c. c\<lparr>stage := AskingQuestions\<rparr>)))
                                                 (ask_questions conversation (channel msg)))
                                              (\<lambda>error. compose_directly conversation (channel msg))))
                                  | Resolved _ \<Rightarrow> Throw TypeError))
                            (\<lambda>downloadError.
                               Throw (Error (''Could not download file content: '' @
                                             err_message downloadError)))
                      | Resolved _ \<Rightarrow> Throw TypeError))
              (\<lambda>error.
                 if error = PlatformError ''missing_scope''
                 then postMessage (channel msg) missing_scope_text
                 else postMessage (channel msg) file_error_text))"

subsection \<open>Direct messages\<close>

text \<open>\<open>message.text && message.text.toLowerCase().trim() === 'stop'\<close>.\<close>

definition wants_stop :: "message \<Rightarrow> bool" where
  "wants_stop msg =
     (case text' msg of
        None \<Rightarrow> False
      | Some t \<Rightarrow> t \<noteq> [] \<and> trim (toLowerCase t) = ''stop'')"

definition message_handler :: "message \<Rightarrow> prog" where
  "message_handler msg =
     func
       (if channel_type msg \<noteq> ''im'' then Exit Undefined
        else
          Read (\<lambda>w.
            case conversations w (channel msg) of
              None \<Rightarrow> Exit Undefined
            | Some conversation \<Rightarrow>
                try_catch
                  (if wants_stop msg
                   then
                     seq (postMessage (channel msg) stop_text)
                       (seq (update (delete_conversation (channel msg))) (Exit Undefined))
                   else
                     Read (\<lambda>w.
                       case heap w conversation of
                         None \<Rightarrow> Throw TypeError
                       | Some c \<Rightarrow>
                           if stage c = Started then
                             (if files msg \<noteq> [] then handleFileUpload conversation msg
                              else
                                seq
                                  (update
                                     (modify_session conversation
                                        (\<lambda>c. c\<lparr>context' := text' msg, stage := AskingQuestions\<rparr>)))
                                  (seq (postMessage (channel msg) context_thanks_text)
                                     (try_catch (ask_questions conversation (channel msg))
                                        (\<lambda>error. compose_directly conversation (channel msg)))))
                           else if stage c = AskingQuestions then
                             seq
                               (update
                                  (modify_session conversation
                                     (\<lambda>c. c\<lparr>clarifyingAnswers := text' msg, stage := Generating\<rparr>)))
                               (seq (postMessage (channel msg) generating_text)
                                  (seq
                                     (try_catch
                                        (Read (\<lambda>w.
                                           case heap w conversation of
                                             None \<Rightarrow> Throw TypeError
                                           | Some c \<Rightarrow>
                                               bind
                                                 (generateDecisionMemoWithClarification
                                                    (context' c) [] (clarifyingQuestions c)
                                                    [clarifyingAnswers c])
                                                 (\<lambda>decisionMemo.
                                                    Read (\<lambda>w.
                                                      if conversations w (channel msg) = None
                                                      then Exit Undefined
                                                      else processMemoAndRespond (channel msg)
                                                             decisionMemo))))
                                        (\<lambda>error. postMessage (channel msg) memo_error_text))
                                     (update (delete_conversation (channel msg)))))
                           else Done Undefined))
                  (\<lambda>error. postMessage (channel msg) message_error_text)))"


subsection \<open>The message shortcut\<close>

text \<open>\<open>t || d\<close> for a text that may be \<open>undefined\<close>.\<close>

definition or_text :: "string option \<Rightarrow> string \<Rightarrow> string" where
  "or_text t d = (case t of None \<Rightarrow> d | Some x \<Rightarrow> if x = [] then d else x)"

definition is_human :: "message \<Rightarrow> bool" where
  "is_human m = (\<not> truthy (bot_id m) \<and> \<not> truthy (subtype m))"

definition transcript :: "message list \<Rightarrow> string" where
  "transcript humanMessages =
     join ''\<newline>\<newline>''
       (map (\<lambda>m. (if truthy (user m) then ''<@'' @ interpolate (user m) @ ''>'' else ''Unknown'') @
                  '': '' @ interpolate (text' m))
          humanMessages)"

definition blockquote :: "string \<Rightarrow> string" where
  "blockquote t = join ''\<newline>'' (map (\<lambda>line. ''>'' @ line) (split t ''\<newline>''))"

text \<open>
  The message, or the thread it belongs to. The three variables the statements set
  (\<open>threadMessages\<close>, \<open>threadContent\<close>, \<open>threadFetchFailed\<close>) go to what follows. A
  rejected fetch, or a result that cannot be read, is caught and sets the flag.
\<close>

definition capture_thread :: "shortcut \<Rightarrow> (message list \<Rightarrow> string \<Rightarrow> bool \<Rightarrow> prog) \<Rightarrow> prog" where
  "capture_thread sc k =
     (let m = shortcut_message sc;
          single = ''<@'' @ or_text (user m) ''Unknown'' @ ''>: '' @ or_text (text' m) []
      in if truthy (thread_ts m) then
           Call (ConversationsReplies (shortcut_channel sc) (interpolate (thread_ts m)))
             (\<lambda>threadResult.
                case threadResult of
                  Rejected threadError \<Rightarrow> k [m] single True
                | Resolved (Messages (Some allMessages)) \<Rightarrow>
                    if allMessages \<noteq> []
                    then k (filter is_human allMessages) (transcript (filter is_human allMessages)) False
                    else k [m] single False
                | Resolved NoPayload \<Rightarrow> k [m] single True
                | Resolved _ \<Rightarrow> k [m] single False)
         else k [m] single False)"

text \<open>The parent of the thread: the first message that is no reply, else the first message.\<close>

definition find_parent :: "message list \<Rightarrow> message option" where
  "find_parent threadMessages =
     (case filter (\<lambda>m. if truthy (thread_ts m) then thread_ts m = Some (ts m) else True)
             threadMessages of
        p # _ \<Rightarrow> Some p
      | [] \<Rightarrow> (case threadMessages of [] \<Rightarrow> None | m # _ \<Rightarrow> Some m))"

definition shortcut_session :: "shortcut \<Rightarrow> message list \<Rightarrow> string \<Rightarrow> session" where
  "shortcut_session sc threadMessages threadContent =
     \<lparr>userId = shortcut_user sc, stage = AskingQuestions, context' = Some threadContent,
      participants = [], clarifyingQuestions = Undefined, clarifyingAnswers = None,
      rawMessages = Some threadMessages, originalChannel = Some (shortcut_channel sc),
      threadTs = Some (or_text (thread_ts (shortcut_message sc)) (ts (shortcut_message sc)))\<rparr>"

definition after_capture :: "shortcut \<Rightarrow> string \<Rightarrow> message list \<Rightarrow> string \<Rightarrow> bool \<Rightarrow> prog" where
  "after_capture sc dmChannelId threadMessages threadContent threadFetchFailed =
     seq (update (assign_conversation dmChannelId (shortcut_session sc threadMessages threadContent)))
       (if truthy (thread_ts (shortcut_message sc)) \<and> threadFetchFailed then
          seq (postMessage dmChannelId (invite_text (shortcut_channel sc)))
            (seq (update (delete_conversation dmChannelId)) (Exit Undefined))
        else if truthy (thread_ts (shortcut_message sc)) \<and> \<not> threadFetchFailed then
          seq (postMessage dmChannelId (thread_intro_text (shortcut_channel sc)))
            (case find_parent threadMessages of
               None \<Rightarrow> Throw TypeError
             | Some parentMessage \<Rightarrow>
                 seq (postMessage dmChannelId
                        (thread_preview_text (blockquote (or_text (text' parentMessage) []))))
                   (seq
                      (try_catch (ask_questions_of_channel dmChannelId threadContent)
                         (\<lambda>error. compose_directly_of_channel dmChannelId threadContent))
                      (Exit Undefined)))
        else
          seq (postMessage dmChannelId (message_intro_text (shortcut_channel sc)))
            (seq (postMessage dmChannelId
                    (message_preview_text (blockquote (or_text (text' (shortcut_message sc)) []))))
               (seq (postMessage dmChannelId analyzing_text)
                  (try_catch
                     (ask_questions_of_channel dmChannelId (or_text (text' (shortcut_message sc)) []))
                     (\<lambda>error.
                        compose_directly_of_channel dmChannelId
                          (or_text (text' (shortcut_message sc)) []))))))"

definition shortcut_handler :: "shortcut \<Rightarrow> prog" where
  "shortcut_handler sc =
     func
       (seq (await Ack)
          (try_catch
             (Call (ConversationsOpen (shortcut_user sc))
                (\<lambda>dmResult.
                   case dmResult of
                     Rejected e \<Rightarrow> Throw e
                   | Resolved (Channel dmChannelId) \<Rightarrow>
                       seq
                         (try_catch
                            (await
                               (ChatPostMessage (shortcut_channel sc)
                                  (Some (or_text (thread_ts (shortcut_message sc))
                                           (ts (shortcut_message sc))))
                                  (thread_notice (shortcut_user sc)
                                     (dm_link (shortcut_team sc) dmChannelId))))
                            (\<lambda>error. Done Undefined))
                         (capture_thread sc (after_capture sc dmChannelId))
                   | Resolved _ \<Rightarrow> Throw TypeError))
             (\<lambda>error.
                try_catch
                  (if or_text (thread_ts (shortcut_message sc)) (ts (shortcut_message sc)) \<noteq> []
                   then
                     await
                       (ChatPostMessage (shortcut_channel sc)
                          (Some (or_text (thread_ts (shortcut_message sc))
                                   (ts (shortcut_message sc))))
                          (shortcut_error_text (shortcut_user sc)))
                   else Done Undefined)
                  (\<lambda>messageError. Done Undefined))))"

subsection \<open>Events\<close>

datatype event = CommandInvoked command | ShortcutInvoked shortcut | MessageReceived message

definition handler :: "event \<Rightarrow> prog" where
  "handler ev =
     (case ev of
        CommandInvoked cmd \<Rightarrow> command_handler cmd
      | ShortcutInvoked sc \<Rightarrow> shortcut_handler sc
      | MessageReceived msg \<Rightarrow> message_handler msg)"

text \<open>
  What happens in the process, one thing at a time: an event comes in and its handler
  runs to its first await, or the call a suspended task waits for settles and the task
  runs to its next await.
\<close>

datatype step = Inbound event | Settle nat response

definition do_step :: "sys \<Rightarrow> step \<Rightarrow> sys" where
  "do_step s x = (case x of Inbound ev \<Rightarrow> start (handler ev) s | Settle i r \<Rightarrow> resolve i r s)"

definition steps :: "step list \<Rightarrow> sys \<Rightarrow> sys" where
  "steps xs s = foldl do_step s xs"

definition init_sys :: "sys" where
  "init_sys = \<lparr>mem = empty_store, issued = [], tasks = [], unhandled = []\<rparr>"

text \<open>The stage the session of a channel is in; \<open>None\<close> where the channel has no session.\<close>

definition stage_of :: "store \<Rightarrow> string \<Rightarrow> stage option" where
  "stage_of w ch =
     (case conversations w ch of
        None \<Rightarrow> None
      | Some r \<Rightarrow> (case heap w r of None \<Rightarrow> None | Some c \<Rightarrow> Some (stage c)))"

definition session_of :: "store \<Rightarrow> string \<Rightarrow> session option" where
  "session_of w ch = (case conversations w ch of None \<Rightarrow> None | Some r \<Rightarrow> heap w r)"

text \<open>A request to the Draft Generator.\<close>

definition is_draft_call :: "request \<Rightarrow> bool" where
  "is_draft_call q = (case q of AnthropicMessages _ _ \<Rightarrow> True | _ \<Rightarrow> False)"


section \<open>Notions of the specification\<close>





text \<open>
  The text \<open>["q1","q2"]\<close> of two questions, and a question whose JSON text is the
  question itself (no double quote, backslash or control unit in it) and that has no
  white space at either end.
\<close>

definition quoted_pair :: "string \<Rightarrow> string \<Rightarrow> string" where
  \<open>quoted_pair q1 q2 = ''["'' @ q1 @ ''","'' @ q2 @ ''"]''\<close>

definition plain_question :: "string \<Rightarrow> bool" where
  "plain_question q =
     (q \<noteq> [] \<and> CHR 0x22 \<notin> set q \<and> CHR 0x5C \<notin> set q \<and> list_all (\<lambda>c. \<not> is_control c) q \<and>
      trim q = q)"

text \<open>A reply whose first question holds an escaped double quote.\<close>

definition escaped_reply :: "string" where
  \<open>escaped_reply = ''["Why '' @ [CHR 0x5C] @ ''"now'' @ [CHR 0x5C] @ ''"?","Who owns it?"]''\<close>

text \<open>
  A handler keeps a relation \<open>R\<close> on the store and a property \<open>P\<close> of requests, started
  in store \<open>w\<close> and run with no other handler in between: every assignment it makes
  takes the store to one related by \<open>R\<close>, every call it makes has \<open>P\<close>, whatever the
  calls resolve with. A handler that forks is not covered.
\<close>

primrec keeps :: "prog \<Rightarrow> (store \<Rightarrow> store \<Rightarrow> bool) \<Rightarrow> (request \<Rightarrow> bool) \<Rightarrow> store \<Rightarrow> bool" where
  "keeps (Done v) = (\<lambda>R P w. True)"
| "keeps (Exit v) = (\<lambda>R P w. True)"
| "keeps (Throw e) = (\<lambda>R P w. True)"
| "keeps (Call q k) = (\<lambda>R P w. P q \<and> (\<forall>r. keeps (k r) R P w))"
| "keeps (Read k) = (\<lambda>R P w. keeps (k w) R P w)"
| "keeps (Write g p) = (\<lambda>R P w. R w (g w) \<and> keeps p R P (g w))"
| "keeps (Fork c p) = (\<lambda>R P w. False)"






text \<open>
  Example data: a user invokes the command, pastes a context, and gets the questions.
\<close>

definition ok :: "response" where
  "ok = Resolved NoPayload"

definition example_command :: "command" where
  "example_command = \<lparr>user_id = ''U1'', team_id = ''T1''\<rparr>"

definition direct_message :: "string \<Rightarrow> message" where
  "direct_message t =
     \<lparr>channel_type = ''im'', channel = ''D1'', user = Some ''U1'', text' = Some t, files = [],
      bot_id = None, subtype = None, ts = ''1.0'', thread_ts = None\<rparr>"

definition new_session :: "session" where
  "new_session =
     \<lparr>userId = ''U1'', stage = Started, context' = Some [], participants = [],
      clarifyingQuestions = Undefined, clarifyingAnswers = None, rawMessages = None,
      originalChannel = None, threadTs = None\<rparr>"

definition started_sys :: "sys" where
  "started_sys =
     run (command_handler example_command) [ok, Resolved (Channel ''D1''), ok, ok] init_sys"

definition asking_sys :: "sys" where
  \<open>asking_sys =
     run (message_handler (direct_message ''We chose vendor B because of cost.''))
       [ok, Resolved (Content [Some ''["Why now?"]'']), ok] started_sys\<close>

text \<open>The reply of the user to the questions of the example conversation.\<close>

definition answers_reply :: "string" where
  "answers_reply = ''1) The contract ends in May. 2) No.''"

text \<open>
  Example data: a user invokes the shortcut on a message that is not in a thread, and
  writes \<open>STOP \<close> while the questions are being planned; then the calls of the
  shortcut handler settle.
\<close>

definition example_shortcut :: "shortcut" where
  "example_shortcut =
     \<lparr>shortcut_user = ''U1'', shortcut_team = ''T1'', shortcut_channel = ''C1'',
      shortcut_message =
        \<lparr>channel_type = ''channel'', channel = ''C1'', user = Some ''U2'',
         text' = Some ''We chose vendor B because of cost.'', files = [], bot_id = None,
         subtype = None, ts = ''1.0'', thread_ts = None\<rparr>\<rparr>"

definition example_memo :: "string" where
  "example_memo = ''# Vendor B\<newline>\<newline>*What is the choice you made?*\<newline>Vendor B.''"

definition stop_schedule :: "step list" where
  \<open>stop_schedule =
     [Inbound (ShortcutInvoked example_shortcut), Settle 0 ok, Settle 0 (Resolved (Channel ''D1'')),
      Settle 0 ok, Settle 0 ok, Settle 0 ok, Settle 0 ok,
      Inbound (MessageReceived (direct_message ''STOP '')), Settle 1 ok]\<close>

definition late_schedule :: "step list" where
  \<open>late_schedule =
     [Settle 0 (Resolved (Content [Some ''[]''])), Settle 0 ok,
      Settle 0 (Resolved (Content [Some example_memo])), Settle 0 ok, Settle 0 ok, Settle 0 ok]\<close>

section \<open>Texts\<close>









section \<open>Memo composition fails\<close>













section \<open>The regular-expression fallback of the Question Planner\<close>

lemma split_from_skip:
  assumes "hd sep \<notin> set xs"
  shows "split_from sep cur (xs @ ys) = split_from sep (rev xs @ cur) ys"
  using assms
proof (induction xs arbitrary: cur)
  case Nil
  then show ?case by simp
next
  case (Cons x xs)
  from Cons.prems have x: "x \<noteq> hd sep" and xs: "hd sep \<notin> set xs" by auto
  from x have "\<not> (sep \<noteq> [] \<and> prefix sep (x # xs @ ys))"
    by (cases sep) auto
  then have "split_from sep cur ((x # xs) @ ys) = split_from sep (x # cur) (xs @ ys)"
    by auto
  also have "\<dots> = split_from sep (rev xs @ x # cur) ys"
    by (rule Cons.IH [OF xs])
  finally show ?case by simp
qed

lemma split_body:
  assumes q1: "CHR 0x22 \<notin> set q1" and q2: "CHR 0x22 \<notin> set q2" and c: "q1 \<noteq> '',''"
  shows "split (CHR 0x22 # q1 @ [CHR 0x22, CHR '','', CHR 0x22] @ q2 @ [CHR 0x22])
           [CHR 0x22, CHR '','', CHR 0x22] = [CHR 0x22 # q1, q2 @ [CHR 0x22]]"
proof -
  let ?sep = "[CHR 0x22, CHR '','', CHR 0x22]"
  let ?tail = "?sep @ q2 @ [CHR 0x22]"
  have first: "\<not> prefix ?sep (CHR 0x22 # q1 @ ?tail)"
  proof
    assume p: "prefix ?sep (CHR 0x22 # q1 @ ?tail)"
    show False
    proof (cases q1)
      case Nil
      with p show False by simp
    next
      case (Cons a as)
      with p have a: "a = CHR '',''" by simp
      show False
      proof (cases as)
        case Nil
        with Cons a c show False by simp
      next
        case (Cons b bs)
        with p \<open>q1 = a # as\<close> have "b = CHR 0x22" by simp
        with Cons \<open>q1 = a # as\<close> q1 show False by simp
      qed
    qed
  qed
  have "split_from ?sep [] (CHR 0x22 # q1 @ ?tail) = split_from ?sep [CHR 0x22] (q1 @ ?tail)"
    using first by simp
  also have "\<dots> = split_from ?sep (rev q1 @ [CHR 0x22]) ?tail"
    using q1 by (simp add: split_from_skip)
  also have "\<dots> = rev (rev q1 @ [CHR 0x22]) # split_from ?sep [] (q2 @ [CHR 0x22])"
    by simp
  also have "split_from ?sep [] (q2 @ [CHR 0x22]) = split_from ?sep (rev q2 @ []) [CHR 0x22]"
    using q2 by (simp add: split_from_skip)
  also have "\<dots> = [q2 @ [CHR 0x22]]"
    by simp
  finally show ?thesis by (simp add: split_def)
qed

lemma strip_quotes_left: "CHR 0x22 \<notin> set q \<Longrightarrow> strip_quotes (CHR 0x22 # q) = q"
  by (cases q rule: rev_cases) (auto simp: strip_quotes_def suffix_def Let_def)

lemma strip_quotes_right: "CHR 0x22 \<notin> set q \<Longrightarrow> q \<noteq> [] \<Longrightarrow> strip_quotes (q @ [CHR 0x22]) = q"
  by (cases q) (auto simp: strip_quotes_def suffix_def Let_def)

lemma strip_bracket_quotes_plain: "CHR 0x22 \<notin> set q \<Longrightarrow> strip_bracket_quotes q = q"
proof -
  assume n: "CHR 0x22 \<notin> set q"
  have a: "\<not> prefix [CHR ''['', CHR 0x22] q"
    using n by (auto simp: prefix_def)
  have b: "\<not> suffix [CHR 0x22, CHR '']''] q"
    using n by (auto simp: suffix_def)
  show ?thesis by (simp add: strip_bracket_quotes_def a b)
qed

lemma extract_questions_pair:
  assumes "plain_question q1" and "plain_question q2" and "q1 \<noteq> '',''"
  shows "extract_questions (CHR 0x22 # q1 @ [CHR 0x22, CHR '','', CHR 0x22] @ q2 @ [CHR 0x22]) = [q1, q2]"
  using assms
  by (simp add: extract_questions_def split_body plain_question_def
      strip_quotes_left strip_quotes_right strip_bracket_quotes_plain del: append.simps)

lemma match_bracketed_between:
  assumes "CHR ''['' \<notin> set before" and "CHR '']'' \<notin> set after"
  shows "match_bracketed (before @ CHR ''['' # body @ CHR '']'' # after) = Some body"
proof -
  have 1: "dropWhile (\<lambda>c. c \<noteq> CHR ''['') (before @ CHR ''['' # body @ CHR '']'' # after)
           = CHR ''['' # body @ CHR '']'' # after"
    using assms(1) by (subst dropWhile_append2) auto
  have 2: "dropWhile (\<lambda>c. c \<noteq> CHR '']'') (rev after @ CHR '']'' # rev body) = CHR '']'' # rev body"
    using assms(2) by (subst dropWhile_append2) auto
  show ?thesis
    by (simp add: match_bracketed_def 1 2)
qed

lemma lex_string_plain:
  assumes "CHR 0x22 \<notin> set q" and "CHR 0x5C \<notin> set q" and "list_all (\<lambda>c. \<not> is_control c) q"
  shows "lex_string acc (q @ CHR 0x22 # rest) = Some (rev acc @ q, rest)"
  using assms by (induction q arbitrary: acc) auto

lemma lex_Nil: "lex [] = Some []"
  by (subst lex.simps) simp

lemma lex_token:
  "\<not> is_json_ws c \<Longrightarrow>
   lex (c # cs) =
     (case next_token (c # cs) of None \<Rightarrow> None | Some (t, rest) \<Rightarrow> map_option (Cons t) (lex rest))"
  by (subst lex.simps) simp

lemma lex_punctuation:
  "map_of punctuation c = Some t \<Longrightarrow> lex (c # cs) = map_option (Cons t) (lex cs)"
proof -
  assume m: "map_of punctuation c = Some t"
  then have "\<not> is_json_ws c"
    by (auto simp: punctuation_def is_json_ws_def split: if_splits)
  with m show ?thesis
    by (simp add: lex_token next_token_def)
qed

lemma lex_quoted:
  assumes "CHR 0x22 \<notin> set q" and "CHR 0x5C \<notin> set q" and "list_all (\<lambda>c. \<not> is_control c) q"
  shows "lex (CHR 0x22 # q @ CHR 0x22 # rest) = map_option (Cons (TString q)) (lex rest)"
proof -
  have "\<not> is_json_ws (CHR 0x22)" by (simp add: is_json_ws_def)
  moreover have "map_of punctuation (CHR 0x22) = None" by (simp add: punctuation_def)
  ultimately show ?thesis
    using lex_string_plain [OF assms, of "[]" rest]
    by (simp add: lex_token next_token_def)
qed

lemma JSON_parse_quoted_pair:
  assumes "plain_question q1" and "plain_question q2"
  shows "JSON_parse (quoted_pair q1 q2) = Some (JArray [JString q1, JString q2])"
proof -
  from assms have 1: "CHR 0x22 \<notin> set q1" "CHR 0x5C \<notin> set q1" "list_all (\<lambda>c. \<not> is_control c) q1"
    and 2: "CHR 0x22 \<notin> set q2" "CHR 0x5C \<notin> set q2" "list_all (\<lambda>c. \<not> is_control c) q2"
    by (simp_all add: plain_question_def)
  have "lex (quoted_pair q1 q2) =
          lex (CHR ''['' # CHR 0x22 # q1 @ CHR 0x22 # CHR '','' # CHR 0x22 # q2 @ CHR 0x22 # [CHR '']''])"
    by (simp add: quoted_pair_def)
  also have "\<dots> = Some [TLBracket, TString q1, TComma, TString q2, TRBracket]"
    by (simp add: lex_punctuation [of _ TLBracket] lex_punctuation [of _ TComma]
        lex_punctuation [of _ TRBracket] lex_quoted [OF 1] lex_quoted [OF 2] lex_Nil punctuation_def)
  finally show ?thesis
    by (simp add: JSON_parse_def parse_step_def value_step_def close_step_def)
qed

text \<open>
  Claim C2, as stated, fails: a reply that is not valid JSON and holds the list
  \<open>["Why \"now\"?","Who owns it?"]\<close> after a line of prose. The strict parse of the
  bare list gives the first question with its quotes; the fallback gives it with the
  backslashes of the JSON text.
\<close>

theorem regex_fallback_differs_from_strict_parse:
  \<open>JSON_parse (''Here are my questions: '' @ escaped_reply) = None \<and>
   JSON_parse escaped_reply = Some (JArray [JString ''Why "now"?'', JString ''Who owns it?'']) \<and>
   parse_questions escaped_reply = [JString ''Why "now"?'', JString ''Who owns it?''] \<and>
   parse_questions (''Here are my questions: '' @ escaped_reply) =
     [JString (''Why '' @ [CHR 0x5C] @ ''"now'' @ [CHR 0x5C] @ ''"?''), JString ''Who owns it?''] \<and>
   parse_questions (''Here are my questions: '' @ escaped_reply) \<noteq> parse_questions escaped_reply\<close>
  by code_simp

text \<open>
  Claim C2, amended. Let the prose before the list hold no \<open>[\<close> and the prose after it
  no \<open>]\<close>, and let both questions be non-empty, free of double quotes, backslashes and
  control units, without white space at either end, the first not the single comma.
  Then on a reply that \<open>JSON.parse\<close> rejects, the fallback returns exactly the two
  questions, which is what the strict parse returns on the bare list.
\<close>

theorem regex_fallback_recovers_plain_questions:
  assumes "plain_question q1" and "plain_question q2" and "q1 \<noteq> '',''"
    and "CHR ''['' \<notin> set before" and "CHR '']'' \<notin> set after"
    and "JSON_parse (before @ quoted_pair q1 q2 @ after) = None"
  shows "parse_questions (before @ quoted_pair q1 q2 @ after) = [JString q1, JString q2] \<and>
         JSON_parse (quoted_pair q1 q2) = Some (JArray [JString q1, JString q2]) \<and>
         parse_questions (quoted_pair q1 q2) = [JString q1, JString q2]"
proof -
  let ?body = "CHR 0x22 # q1 @ [CHR 0x22, CHR '','', CHR 0x22] @ q2 @ [CHR 0x22]"
  have shape: "before @ quoted_pair q1 q2 @ after = before @ CHR ''['' # ?body @ CHR '']'' # after"
    by (simp add: quoted_pair_def)
  have m: "match_bracketed (before @ quoted_pair q1 q2 @ after) = Some ?body"
    unfolding shape by (rule match_bracketed_between [OF assms(4,5)])
  have e: "extract_questions ?body = [q1, q2]"
    by (rule extract_questions_pair [OF assms(1-3)])
  have strict: "JSON_parse (quoted_pair q1 q2) = Some (JArray [JString q1, JString q2])"
    by (rule JSON_parse_quoted_pair [OF assms(1,2)])
  have "parse_questions (before @ quoted_pair q1 q2 @ after) = [JString q1, JString q2]"
    using assms(6) m e by (simp add: parse_questions_def)
  moreover have "parse_questions (quoted_pair q1 q2) = [JString q1, JString q2]"
    using strict by (simp add: parse_questions_def)
  ultimately show ?thesis using strict by simp
qed

theorem regex_fallback_recovers_plain_questions_witness:
  \<open>plain_question ''Why now?'' \<and> plain_question ''Who owns it?'' \<and> ''Why now?'' \<noteq> '','' \<and>
   CHR ''['' \<notin> set ''Here are my questions: '' \<and> CHR '']'' \<notin> set '' Thanks.'' \<and>
   JSON_parse (''Here are my questions: '' @ quoted_pair ''Why now?'' ''Who owns it?'' @ '' Thanks.'') = None \<and>
   parse_questions (''Here are my questions: '' @ quoted_pair ''Why now?'' ''Who owns it?'' @ '' Thanks.'')
     = [JString ''Why now?'', JString ''Who owns it?''] \<and>
   JSON_parse (quoted_pair ''Why now?'' ''Who owns it?'')
     = Some (JArray [JString ''Why now?'', JString ''Who owns it?'']) \<and>
   parse_questions (quoted_pair ''Why now?'' ''Who owns it?'')
     = [JString ''Why now?'', JString ''Who owns it?'']\<close>
proof -
  have 1: "plain_question ''Why now?''" by code_simp
  have 2: "plain_question ''Who owns it?''" by code_simp
  have 3: "''Why now?'' \<noteq> '',''" by simp
  have 4: "CHR ''['' \<notin> set ''Here are my questions: ''" by simp
  have 5: "CHR '']'' \<notin> set '' Thanks.''" by simp
  have 6: "JSON_parse (''Here are my questions: '' @ quoted_pair ''Why now?'' ''Who owns it?'' @ '' Thanks.'') = None"
    by code_simp
  from regex_fallback_recovers_plain_questions [OF 1 2 3 4 5 6] 1 2 3 4 5 6
  show ?thesis by blast
qed

section \<open>Invariants of a handler run\<close>










lemmas prog_defs = seq_def update_def await_def postMessage_def





lemma keeps_try_pure:
  "keeps p (\<lambda>a b. b = a) P w \<Longrightarrow> R w w \<Longrightarrow> (\<And>e. keeps (h e) R P w) \<Longrightarrow>
   keeps (try_catch p h) R P w"
  by (induction p arbitrary: w) auto






lemma keeps_await: "P q \<Longrightarrow> keeps (await q) R P w"
  by (simp add: prog_defs split: response.split)

section \<open>A direct message moves the stage forward\<close>






















section \<open>The example conversation\<close>

lemmas sys_defs = run_def start_def settle_def resolve_def

lemmas store_defs = assign_conversation_def delete_conversation_def modify_session_def
  empty_store_def init_sys_def

lemma started_sys_eq:
  "started_sys =
     \<lparr>mem = \<lparr>conversations = [''D1'' \<mapsto> 0], heap = [0 \<mapsto> new_session], fresh = 1\<rparr>,
      issued = [Ack, ConversationsOpen ''U1'',
                Respond (command_reply (dm_link ''T1'' ''D1'')),
                ChatPostMessage ''D1'' None start_text],
      tasks = [], unhandled = []\<rparr>"
  by (simp add: started_sys_def command_handler_def example_command_def ok_def new_session_def
      sys_defs store_defs prog_defs)

lemma vendor_not_stop: "\<not> wants_stop (direct_message ''We chose vendor B because of cost.'')"
  by code_simp

lemma why_now_parsed: \<open>parse_questions ''["Why now?"]'' = [JString ''Why now?'']\<close>
  by code_simp

lemma asking_sys_eq:
  \<open>asking_sys =
     \<lparr>mem = \<lparr>conversations = [''D1'' \<mapsto> 0],
             heap = [0 \<mapsto> new_session
                      \<lparr>stage := AskingQuestions,
                       context' := Some ''We chose vendor B because of cost.'',
                       clarifyingQuestions := JArray [JString ''Why now?'', JString finalQuestion]\<rparr>],
             fresh = 1\<rparr>,
      issued = [Ack, ConversationsOpen ''U1'',
                Respond (command_reply (dm_link ''T1'' ''D1'')),
                ChatPostMessage ''D1'' None start_text,
                ChatPostMessage ''D1'' None context_thanks_text,
                AnthropicMessages
                  (clarifying_prompt (Some ''We chose vendor B because of cost.'') []) 1000,
                ChatPostMessage ''D1'' None
                  (questions_message [JString ''Why now?'', JString finalQuestion])],
      tasks = [], unhandled = []\<rparr>\<close>
  by (simp add: asking_sys_def started_sys_eq message_handler_def
      vendor_not_stop [unfolded direct_message_def] direct_message_def ok_def new_session_def
      ask_questions_def store_and_post_questions_def push_question_def
      generateClarifyingQuestions_def content_text_def why_now_parsed or_empty_array_def
      falsy_def indexable_def sys_defs store_defs prog_defs)




section \<open>Evaluating a schedule\<close>

text \<open>
  Rules that keep the simplifier out of what a suspended task will do, until the call
  it waits for settles.
\<close>

lemma Call_hold: "q = q' \<Longrightarrow> Call q k = Call q' k"
  by simp

lemma Awaiting_hold: "q = q' \<Longrightarrow> Awaiting q k = Awaiting q' k"
  by simp

lemma task_hold: "q = q' \<Longrightarrow> (q, k :: response \<Rightarrow> prog) = (q', k)"
  by simp

lemmas handler_defs = do_step_def handler_def command_handler_def shortcut_handler_def
  message_handler_def handleFileUpload_def capture_thread_def after_capture_def
  ask_questions_def compose_directly_def ask_questions_of_channel_def
  compose_directly_of_channel_def store_and_post_questions_def push_question_def
  generateClarifyingQuestions_def generateDecisionMemo_def
  generateDecisionMemoWithClarification_def processMemoAndRespond_def
  content_text_def or_text_def truthy_def interpolate_def

lemmas run_defs = steps_def handler_defs ok_def sys_defs store_defs prog_defs Let_def

section \<open>The prompt of the clarified memo\<close>

lemma foldl_append_upt:
  "foldl (\<lambda>acc i. acc @ f i) a [m..<n] = a @ concat (map f [m..<n])"
  by (induction n arbitrary: a) simp_all

lemma clarification_text_concat:
  "clarification_text questions answers =
     concat (map (\<lambda>i. ''Question: '' @ to_string (questions ! i) @ ''\<newline>Answer: '' @
                        answer_at answers i @ ''\<newline>\<newline>'') [0..<length questions])"
  unfolding clarification_text_def by (simp add: foldl_append_upt)

lemma map_upt_from_0:
  "map f [0..<Suc n] = f 0 # map (\<lambda>i. f (Suc i)) [0..<n]"
  by (simp add: map_upt_Suc del: upt_Suc)

lemma clarification_text_single_answer:
  "clarification_text (JString q # map JString qs) [a] =
     ''Question: '' @ q @ ''\<newline>Answer: '' @ interpolate a @ ''\<newline>\<newline>'' @
     concat (map (\<lambda>q. ''Question: '' @ q @ ''\<newline>Answer: undefined\<newline>\<newline>'') qs)"
proof -
  have "map (\<lambda>i. ''Question: '' @ to_string (map JString qs ! i) @ ''\<newline>Answer: undefined\<newline>\<newline>'')
          [0..<length qs] =
        map (\<lambda>q. ''Question: '' @ q @ ''\<newline>Answer: undefined\<newline>\<newline>'') qs"
    by (rule nth_equalityI) simp_all
  then show ?thesis
    by (simp add: clarification_text_concat map_upt_from_0 answer_at_def del: upt_Suc)
qed

lemma reply_not_stop: "\<not> wants_stop (direct_message answers_reply)"
  by code_simp

lemma example_clarification:
  "clarification_text [JString ''Why now?'', JString finalQuestion] [Some answers_reply] =
     ''Question: Why now?\<newline>Answer: '' @ answers_reply @ ''\<newline>\<newline>'' @
     ''Question: '' @ finalQuestion @ ''\<newline>Answer: undefined\<newline>\<newline>''"
  using clarification_text_single_answer [of "''Why now?''" "[finalQuestion]" "Some answers_reply"]
  by (simp add: interpolate_def)

text \<open>
  Claim C9 fails in the code. The composer pairs question \<open>i\<close> with \<open>answers[i]\<close>, and the
  message handler passes the one reply of the user as a one-element array: the reply is
  paired with the first question only, and every later question, the catch-all question
  among them, is given the answer \<open>undefined\<close> in the prompt. So it is in the example
  conversation, whose prompt is the second part of the statement.
\<close>

theorem single_reply_answers_first_question_only:
  "clarification_text (JString q # map JString qs) [a] =
     ''Question: '' @ q @ ''\<newline>Answer: '' @ interpolate a @ ''\<newline>\<newline>'' @
     concat (map (\<lambda>q. ''Question: '' @ q @ ''\<newline>Answer: undefined\<newline>\<newline>'') qs) \<and>
   issued (run (message_handler (direct_message answers_reply)) [ok] asking_sys) =
     issued asking_sys @
     [ChatPostMessage ''D1'' None generating_text,
      AnthropicMessages
        (clarified_memo_prompt (Some ''We chose vendor B because of cost.'') []
           (''Question: Why now?\<newline>Answer: '' @ answers_reply @ ''\<newline>\<newline>'' @
            ''Question: '' @ finalQuestion @ ''\<newline>Answer: undefined\<newline>\<newline>''))
        4000]"
  by (simp add: clarification_text_single_answer asking_sys_eq message_handler_def
      reply_not_stop [unfolded direct_message_def] direct_message_def ok_def new_session_def
      generateDecisionMemoWithClarification_def indexable_def example_clarification
      sys_defs store_defs prog_defs)

section \<open>A stop while the questions are planned\<close>

lemma stop_wanted: "wants_stop (direct_message ''STOP '')"
  by code_simp

lemma example_quote:
  "blockquote ''We chose vendor B because of cost.'' = ''>We chose vendor B because of cost.''"
  by code_simp

lemma example_title:
  "split_title example_memo = (''Vendor B'', ''*What is the choice you made?*\<newline>Vendor B.'')"
  by code_simp

lemma no_questions_parsed: \<open>parse_questions ''[]'' = []\<close>
  by code_simp

text \<open>
  Claim C5 fails in the code. The shortcut handler is waiting for the questions of the
  Draft Generator when the user writes \<open>STOP \<close>; the message handler acknowledges and
  deletes the session. When the questions arrive, the shortcut handler finds no entry
  for the channel, takes its \<open>catch\<close> branch, has a memo composed and posts it to the
  channel: after the deletion, a call of the Draft Generator and a memo.
\<close>

theorem stop_during_planning_does_not_prevent_memo:
  "stage_of (mem (steps (take 7 stop_schedule) init_sys)) ''D1'' = Some AskingQuestions \<and>
   stage_of (mem (steps stop_schedule init_sys)) ''D1'' = None \<and>
   issued (steps stop_schedule init_sys) =
     [Ack, ConversationsOpen ''U1'',
      ChatPostMessage ''C1'' (Some ''1.0'') (thread_notice ''U1'' (dm_link ''T1'' ''D1'')),
      ChatPostMessage ''D1'' None (message_intro_text ''C1''),
      ChatPostMessage ''D1'' None (message_preview_text ''>We chose vendor B because of cost.''),
      ChatPostMessage ''D1'' None analyzing_text,
      AnthropicMessages (clarifying_prompt (Some ''We chose vendor B because of cost.'') []) 1000,
      ChatPostMessage ''D1'' None stop_text] \<and>
   issued (steps (stop_schedule @ late_schedule) init_sys) =
     issued (steps stop_schedule init_sys) @
     [ChatPostMessage ''D1'' None trouble_text,
      AnthropicMessages (memo_prompt (Some ''We chose vendor B because of cost.'') []) 4000,
      ChatPostMessage ''D1'' None memo_intro_text,
      ChatPostMessage ''D1'' None
        ''*Vendor B*\<newline>\<newline>*What is the choice you made?*\<newline>Vendor B.'',
      ChatPostMessage ''D1'' None closing_text]"
  by (simp add: stop_schedule_def late_schedule_def run_defs example_shortcut_def
      stop_wanted [unfolded direct_message_def] direct_message_def example_quote
      example_title no_questions_parsed shortcut_session_def stage_of_def
      or_empty_array_def falsy_def
      cong: Call_hold Awaiting_hold task_hold)

end
